theory Spec2Isabelle
  imports Main
begin

section \<open>Python text\<close>

text \<open>
  A Python \<open>str\<close> is a sequence of Unicode code points: \<open>len\<close>, iteration, \<open>ord\<close> and
  substring search all work on code points.  A string is therefore a list of code points
  (natural numbers); \<open>py\<close> embeds an ASCII literal.
\<close>

type_synonym pystr = "nat list"

definition py :: "string \<Rightarrow> pystr" where
  "py s = map of_char s"

text \<open>
  \<open>str.lower\<close>.  The ASCII letters \<open>A\<close>..\<open>Z\<close> are mapped to \<open>a\<close>..\<open>z\<close>; the case mapping
  of letters outside ASCII is not modelled (such code points are left as they are).
\<close>

definition lower_char :: "nat \<Rightarrow> nat" where
  "lower_char c = (if 65 \<le> c \<and> c \<le> 90 then c + 32 else c)"

definition lower :: "pystr \<Rightarrow> pystr" where
  "lower s = map lower_char s"

text \<open>\<open>s.startswith(w)\<close>, \<open>s.endswith(w)\<close> and \<open>w in s\<close> (also \<open>s.find(w) >= 0\<close>).\<close>

fun startswith :: "pystr \<Rightarrow> pystr \<Rightarrow> bool" where
  "startswith s [] = True"
| "startswith [] (c # w) = False"
| "startswith (d # s) (c # w) = (d = c \<and> startswith s w)"

definition endswith :: "pystr \<Rightarrow> pystr \<Rightarrow> bool" where
  "endswith s w = startswith (rev s) (rev w)"

fun contains :: "pystr \<Rightarrow> pystr \<Rightarrow> bool" where
  "contains w [] = (w = [])"
| "contains w (c # s) = (startswith (c # s) w \<or> contains w s)"

text \<open>\<open>str.strip()\<close> removes leading and trailing whitespace (here: the ASCII whitespace
  characters space, tab, line feed, vertical tab, form feed, carriage return and the
  separators 28..31, which \<open>str.isspace\<close> accepts).\<close>

definition is_space :: "nat \<Rightarrow> bool" where
  "is_space c = (c = 32 \<or> (9 \<le> c \<and> c \<le> 13) \<or> (28 \<le> c \<and> c \<le> 31))"

definition strip :: "pystr \<Rightarrow> pystr" where
  "strip s = rev (dropWhile is_space (rev (dropWhile is_space s)))"

section \<open>Error taxonomy\<close>

text \<open>\<open>class LLMErrorCode(StrEnum)\<close>; \<open>code_value\<close> is the string an f-string prints.\<close>

datatype LLMErrorCode =
    ERROR_RATE_LIMIT
  | ERROR_AUTHENTICATION
  | ERROR_INVALID_REQUEST
  | ERROR_SERVER
  | ERROR_TIMEOUT
  | ERROR_CONNECTION
  | ERROR_MODEL
  | ERROR_MAX_ROUNDS
  | ERROR_CONTENT_FILTER
  | ERROR_QUOTA
  | ERROR_MAX_RETRIES
  | ERROR_GENERIC

fun code_value :: "LLMErrorCode \<Rightarrow> pystr" where
  "code_value ERROR_RATE_LIMIT = py ''RATE_LIMIT_EXCEEDED''"
| "code_value ERROR_AUTHENTICATION = py ''AUTH_ERROR''"
| "code_value ERROR_INVALID_REQUEST = py ''INVALID_REQUEST''"
| "code_value ERROR_SERVER = py ''SERVER_ERROR''"
| "code_value ERROR_TIMEOUT = py ''TIMEOUT''"
| "code_value ERROR_CONNECTION = py ''CONNECTION_ERROR''"
| "code_value ERROR_MODEL = py ''MODEL_ERROR''"
| "code_value ERROR_MAX_ROUNDS = py ''ERROR_MAX_ROUNDS''"
| "code_value ERROR_CONTENT_FILTER = py ''CONTENT_FILTERED''"
| "code_value ERROR_QUOTA = py ''QUOTA_EXCEEDED''"
| "code_value ERROR_MAX_RETRIES = py ''MAX_RETRIES_EXCEEDED''"
| "code_value ERROR_GENERIC = py ''GENERIC_ERROR''"

definition ERROR_PREFIX :: pystr where
  "ERROR_PREFIX = py ''**ERROR**''"

text \<open>
  Exceptions.  \<open>APIError\<close> stands for \<open>openai.APIError\<close> and its subclasses, \<open>OtherError\<close>
  for every other subclass of \<open>Exception\<close>; both carry the text \<open>str(e)\<close>.
  \<open>AssertionError\<close> is what the trailing \<open>assert False\<close> of the retry loops raises.
\<close>

datatype pyexn = APIError pystr | OtherError pystr | AssertionError pystr

fun str_exn :: "pyexn \<Rightarrow> pystr" where
  "str_exn (APIError m) = m"
| "str_exn (OtherError m) = m"
| "str_exn (AssertionError m) = m"

section \<open>ErrorClassifier: \<open>Base._classify_error\<close>\<close>

definition quota_words :: "pystr list" where
  "quota_words = [py ''quota'', py ''capacity'', py ''credit'', py ''billing'', py ''balance'',
                  [0x6B20, 0x8D39]]"

definition rate_limit_words :: "pystr list" where
  "rate_limit_words = [py ''rate limit'', py ''429'', py ''tpm limit'', py ''too many requests'',
                       py ''requests per minute'']"

definition keywords_mapping :: "(pystr list \<times> LLMErrorCode) list" where
  "keywords_mapping =
    [ (quota_words, ERROR_QUOTA),
      (rate_limit_words, ERROR_RATE_LIMIT),
      ([py ''auth'', py ''key'', py ''apikey'', py ''401'', py ''forbidden'', py ''permission''],
         ERROR_AUTHENTICATION),
      ([py ''invalid'', py ''bad request'', py ''400'', py ''format'', py ''malformed'',
        py ''parameter''], ERROR_INVALID_REQUEST),
      ([py ''server'', py ''503'', py ''502'', py ''504'', py ''500'', py ''unavailable''],
         ERROR_SERVER),
      ([py ''timeout'', py ''timed out''], ERROR_TIMEOUT),
      ([py ''connect'', py ''network'', py ''unreachable'', py ''dns''], ERROR_CONNECTION),
      ([py ''filter'', py ''content'', py ''policy'', py ''blocked'', py ''safety'',
        py ''inappropriate''], ERROR_CONTENT_FILTER),
      ([py ''model'', py ''not found'', py ''does not exist'', py ''not available''], ERROR_MODEL),
      ([py ''max rounds''], ERROR_MODEL) ]"

text \<open>
  \<open>re.search("({})".format("|".join(words)), error_str)\<close>: none of the keywords holds a
  regular-expression metacharacter, so the pattern is an alternation of literals and
  matches exactly when one of the words occurs in \<open>error_str\<close>.
\<close>

definition re_search_words :: "pystr list \<Rightarrow> pystr \<Rightarrow> bool" where
  "re_search_words words error_str = list_ex (\<lambda>w. contains w error_str) words"

text \<open>The \<open>for words, code in keywords_mapping\<close> loop with its early \<open>return code\<close>.\<close>

fun classify_loop :: "(pystr list \<times> LLMErrorCode) list \<Rightarrow> pystr \<Rightarrow> LLMErrorCode" where
  "classify_loop [] error_str = ERROR_GENERIC"
| "classify_loop ((words, code) # rest) error_str =
     (if re_search_words words error_str then code else classify_loop rest error_str)"

definition classify_error :: "pyexn \<Rightarrow> LLMErrorCode" where
  "classify_error error =
     (let error_str = lower (str_exn error) in classify_loop keywords_mapping error_str)"

section \<open>RetryPolicy: \<open>_retryable_errors\<close>, \<open>_should_retry\<close>, \<open>_exceptions\<close>\<close>

definition retryable_errors :: "LLMErrorCode set" where
  "retryable_errors = {ERROR_RATE_LIMIT, ERROR_SERVER}"

definition should_retry :: "LLMErrorCode \<Rightarrow> bool" where
  "should_retry error_code = (error_code \<in> retryable_errors)"

text \<open>
  \<open>Base._exceptions(e, attempt)\<close>: \<open>None\<close> after sleeping when the error is to be retried,
  otherwise the formatted message.  The sleep itself (a real-time delay of
  \<open>base_delay * random.uniform(10, 150)\<close> seconds) has no effect on the values computed and
  is left out; the caller's model counts the retries instead.
\<close>

definition format_error :: "LLMErrorCode \<Rightarrow> pyexn \<Rightarrow> pystr" where
  "format_error error_code e = ERROR_PREFIX @ py '': '' @ code_value error_code @ py '' - '' @ str_exn e"

definition exceptions :: "int \<Rightarrow> pyexn \<Rightarrow> nat \<Rightarrow> pystr option" where
  "exceptions max_retries e attempt =
     (let error_code = classify_error e;
          error_code = (if int attempt = max_retries then ERROR_MAX_RETRIES else error_code)
      in if should_retry error_code then None
         else Some (format_error error_code e))"

section \<open>Data model\<close>

text \<open>\<open>str(n)\<close> for an integer, as the f-strings print it.\<close>

fun str_nat :: "nat \<Rightarrow> pystr" where
  "str_nat n = (if n < 10 then [48 + n] else str_nat (n div 10) @ [48 + n mod 10])"

declare str_nat.simps [simp del]

definition str_int :: "int \<Rightarrow> pystr" where
  "str_int i = (if i < 0 then 45 # str_nat (nat (- i)) else str_nat (nat i))"

text \<open>
  A tool call, as the provider's SDK object (\<open>tool_call.index\<close>, \<open>tool_call.id\<close>,
  \<open>tool_call.function.name\<close>, \<open>tool_call.function.arguments\<close>) and as the dictionary
  \<open>_append_history\<close> builds from it.  In a streamed fragment the arguments may be \<open>None\<close>.
\<close>

record tool_call =
  tc_index :: int
  tc_id :: pystr
  tc_name :: pystr
  tc_arguments :: "pystr option"

text \<open>
  A history entry is a dictionary; \<open>None\<close> in \<open>role\<close>, \<open>content\<close> and \<open>tool_call_id\<close> and
  the empty list in \<open>tool_calls\<close> stand for an absent key.  Values of \<open>content\<close> are
  strings, as in every entry this code builds.
\<close>

record message =
  role :: "pystr option"
  content :: "pystr option"
  tool_calls :: "tool_call list"
  tool_call_id :: "pystr option"

definition system_message :: "pystr \<Rightarrow> message" where
  "system_message system =
     \<lparr>role = Some (py ''system''), content = Some system, tool_calls = [], tool_call_id = None\<rparr>"

definition user_message :: "pystr \<Rightarrow> message" where
  "user_message text =
     \<lparr>role = Some (py ''user''), content = Some text, tool_calls = [], tool_call_id = None\<rparr>"

definition tool_message :: "pystr \<Rightarrow> pystr \<Rightarrow> message" where
  "tool_message call_id text =
     \<lparr>role = Some (py ''tool''), content = Some text, tool_calls = [], tool_call_id = Some call_id\<rparr>"

definition assistant_call_message :: "tool_call \<Rightarrow> message" where
  "assistant_call_message tc =
     \<lparr>role = Some (py ''assistant''), content = None, tool_calls = [tc], tool_call_id = None\<rparr>"

section \<open>ConversationNormalizer\<close>

text \<open>
  The statement that opens every chat operation (lines 362, 470, 501, 758):
  \<open>if system and history and history[0].get("role") != "system":
       history.insert(0, {"role": "system", "content": system})\<close>.
\<close>

definition insert_system :: "pystr \<Rightarrow> message list \<Rightarrow> message list" where
  "insert_system system history =
     (if system \<noteq> [] \<and> history \<noteq> [] \<and> role (hd history) \<noteq> Some (py ''system'')
      then system_message system # history
      else history)"

text \<open>
  \<open>Base._clean_conf\<close>.  A generation config is a dictionary from option names to values;
  the values are opaque.  \<open>self.model_name or ""\<close> is the model name here (a string).
\<close>

definition allowed_conf :: "pystr set" where
  "allowed_conf =
     { py ''temperature'', py ''max_completion_tokens'', py ''top_p'', py ''stream'',
       py ''stream_options'', py ''stop'', py ''n'', py ''presence_penalty'',
       py ''frequency_penalty'', py ''functions'', py ''function_call'', py ''logit_bias'',
       py ''user'', py ''response_format'', py ''seed'', py ''tools'', py ''tool_choice'',
       py ''logprobs'', py ''top_logprobs'', py ''extra_headers'' }"

definition clean_conf :: "pystr \<Rightarrow> (pystr \<rightharpoonup> 'v) \<Rightarrow> (pystr \<rightharpoonup> 'v)" where
  "clean_conf model_name gen_conf =
     (let gen_conf = (if gen_conf (py ''max_tokens'') \<noteq> None
                      then gen_conf (py ''max_tokens'' := None) else gen_conf);
          gen_conf = gen_conf |` allowed_conf;
          model_name_lower = lower model_name
      in if contains (py ''gpt-5'') model_name_lower then Map.empty else gen_conf)"

text \<open>\<open>LiteLLMBase._clean_conf\<close>: only the \<open>max_tokens\<close> key is deleted.\<close>

definition litellm_clean_conf :: "(pystr \<rightharpoonup> 'v) \<Rightarrow> (pystr \<rightharpoonup> 'v)" where
  "litellm_clean_conf gen_conf =
     (if gen_conf (py ''max_tokens'') \<noteq> None
      then gen_conf (py ''max_tokens'' := None) else gen_conf)"

section \<open>Dynamic context window: \<open>Base._calculate_dynamic_ctx\<close>\<close>

text \<open>The inner \<open>count_tokens\<close>: a loop over the characters with the accumulator \<open>total\<close>.\<close>

definition count_tokens :: "pystr \<Rightarrow> nat" where
  "count_tokens text = foldl (\<lambda>total char. if char < 128 then total + 1 else total + 2) 0 text"

text \<open>The loop over the history: \<open>message.get("content", "")\<close> and the role overhead 4.\<close>

definition history_tokens :: "message list \<Rightarrow> nat" where
  "history_tokens history =
     foldl (\<lambda>total_tokens message.
              let content = (case content message of None \<Rightarrow> [] | Some c \<Rightarrow> c);
                  content_tokens = count_tokens content;
                  role_tokens = 4
              in total_tokens + (content_tokens + role_tokens)) 0 history"

text \<open>
  \<open>int(total_tokens * 1.2)\<close>.  The source multiplies in double precision and truncates;
  for totals below \<open>10^15\<close> that is the integer \<open>\<lfloor>12 * total / 10\<rfloor>\<close> (the double nearest
  to 1.2 is off by a relative \<open>3.7e-17\<close>, less than half a unit in the last place of the
  product, so an integral product is exact and no other product crosses an integer).
\<close>

definition with_buffer :: "nat \<Rightarrow> nat" where
  "with_buffer total_tokens = (total_tokens * 12) div 10"

definition calculate_dynamic_ctx :: "message list \<Rightarrow> nat" where
  "calculate_dynamic_ctx history =
     (let total_tokens = history_tokens history;
          total_tokens_with_buffer = with_buffer total_tokens
      in if total_tokens_with_buffer \<le> 8192 then 8192
         else let ctx_multiplier = (total_tokens_with_buffer div 8192) + 1
              in ctx_multiplier * 8192)"

section \<open>Provider responses and the environment of a call\<close>

text \<open>Truthiness of an optional string (\<open>None\<close> and \<open>""\<close> are false) and \<open>s or ""\<close>.\<close>

definition truthy :: "pystr option \<Rightarrow> bool" where
  "truthy s = (case s of None \<Rightarrow> False | Some t \<Rightarrow> t \<noteq> [])"

definition or_empty :: "pystr option \<Rightarrow> pystr" where
  "or_empty s = (case s of None \<Rightarrow> [] | Some t \<Rightarrow> t)"

text \<open>
  A non-streaming completion.  \<open>usage\<close> is what \<open>total_token_count_from_response\<close>
  (imported from \<open>common.token_utils\<close>) reports for the response; an absent
  \<open>reasoning_content\<close> attribute is \<open>None\<close>, an absent or \<open>None\<close> \<open>tool_calls\<close> is \<open>[]\<close>.
\<close>

record response_message =
  msg_content :: "pystr option"
  msg_reasoning_content :: "pystr option"
  msg_tool_calls :: "tool_call list"

record choice =
  choice_message :: "response_message option"
  finish_reason :: "pystr option"

record completion =
  choices :: "choice list"
  usage :: nat

text \<open>A chunk of a streamed completion; \<open>chunk_usage\<close> as \<open>usage\<close> above (0 when absent).\<close>

record delta =
  delta_content :: "pystr option"
  delta_reasoning_content :: "pystr option"
  delta_tool_calls :: "tool_call list"

record chunk_choice =
  chunk_delta :: delta
  chunk_finish_reason :: "pystr option"

record chunk =
  chunk_choices :: "chunk_choice list"
  chunk_usage :: nat

text \<open>
  A request as \<open>client.chat.completions.create\<close> receives it: the messages, the generation
  options, whether \<open>stream=True\<close> is passed and whether \<open>tools=self.tools,
  tool_choice="auto"\<close> are attached.
\<close>

record 'v request =
  req_messages :: "message list"
  req_conf :: "pystr \<rightharpoonup> 'v"
  req_stream :: bool
  req_tools :: bool

text \<open>
  The provider is an oracle: its answer to the \<open>n\<close>-th request of a call (counting from 0)
  is an exception or a response.  A streamed response is the chunks it delivers and, if
  the iteration breaks off, the exception raised after the last of them.
\<close>

record 'v provider =
  create :: "nat \<Rightarrow> 'v request \<Rightarrow> pyexn + completion"
  create_stream :: "nat \<Rightarrow> 'v request \<Rightarrow> pyexn + chunk list \<times> pyexn option"

text \<open>The effects of a call: the requests issued, oldest first, and the backoff sleeps.\<close>

record 'v world =
  requests :: "'v request list"
  sleeps :: nat

definition world0 :: "'v world" where
  "world0 = \<lparr>requests = [], sleeps = 0\<rparr>"

text \<open>The fields of \<open>self\<close> the modelled methods read.\<close>

record adapter =
  model_name :: pystr
  max_retries :: int
  max_rounds :: int

text \<open>
  Functions the module imports or receives, taken as parameters: the token estimator and
  the script detection (\<open>is_chinese\<close> is called on a string in \<open>_chat_streamly\<close> and on a
  one-element list in \<open>_length_stop\<close>), \<open>json_repair.loads\<close>, the injected
  \<open>toolcall_session.tool_call\<close>, \<open>json.dumps\<close> of a trace record (taken to succeed), the text
  of a tool result (\<open>json.dumps\<close> of a dictionary, \<open>str\<close> of anything else) and the \<open>repr\<close>
  of the SDK objects that the f-strings print.  \<open>'j\<close> is the type of JSON values.
\<close>

record 'j deps =
  num_tokens_from_string :: "pystr \<Rightarrow> nat"
  is_chinese :: "pystr \<Rightarrow> bool"
  is_chinese_list :: "pystr list \<Rightarrow> bool"
  json_loads :: "pystr option \<Rightarrow> pyexn + 'j"
  empty_dict :: 'j
  json_str :: "pystr \<Rightarrow> 'j"
  run_tool :: "pystr \<Rightarrow> 'j \<Rightarrow> pyexn + 'j"
  result_text :: "'j \<Rightarrow> pystr"
  json_dumps :: "pystr \<Rightarrow> 'j \<Rightarrow> 'j \<Rightarrow> pystr"
  repr_completion :: "completion \<Rightarrow> pystr"
  repr_tool_call :: "tool_call \<Rightarrow> pystr"

definition LENGTH_NOTIFICATION_CN :: pystr where
  "LENGTH_NOTIFICATION_CN = [183, 183, 183, 183, 183, 183, 10, 30001, 20110, 22823, 27169, 22411, 30340, 19978, 19979, 25991, 31383, 21475, 22823, 23567, 38480, 21046, 65292, 22238, 31572, 24050, 32463, 34987, 22823, 27169, 22411, 25130, 26029, 12290]"

definition LENGTH_NOTIFICATION_EN :: pystr where
  "LENGTH_NOTIFICATION_EN = py ''...'' @ [10] @
     py ''The answer is truncated by your chosen LLM due to its limitation on context length.''"

definition length_stop :: "'j deps \<Rightarrow> pystr \<Rightarrow> pystr" where
  "length_stop d ans =
     (if is_chinese_list d [ans] then ans @ LENGTH_NOTIFICATION_CN
      else ans @ LENGTH_NOTIFICATION_EN)"

section \<open>\<open>Base._chat_streamly\<close>, \<open>Base._chat\<close>, \<open>Base.chat\<close>, \<open>Base.chat_streamly\<close>\<close>

text \<open>
  The loop of \<open>_chat_streamly\<close> over the chunks: the pairs \<open>(ans, tol)\<close> it yields.
  Keyword arguments other than \<open>with_reasoning\<close> (\<open>stop\<close>, \<open>extra_body\<close>) only decorate the
  request and are not modelled.
\<close>

fun chat_streamly_chunks :: "'j deps \<Rightarrow> bool \<Rightarrow> bool \<Rightarrow> chunk list \<Rightarrow> (pystr \<times> nat) list" where
  "chat_streamly_chunks d with_reasoning reasoning_start [] = []"
| "chat_streamly_chunks d with_reasoning reasoning_start (resp # rest) =
     (case chunk_choices resp of
        [] \<Rightarrow> chat_streamly_chunks d with_reasoning reasoning_start rest
      | c0 # _ \<Rightarrow>
          let content = or_empty (delta_content (chunk_delta c0));
              reasoning = with_reasoning \<and> truthy (delta_reasoning_content (chunk_delta c0));
              ans = (if reasoning
                     then (if \<not> reasoning_start then py ''<think>'' else []) @
                          or_empty (delta_reasoning_content (chunk_delta c0)) @ py ''</think>''
                     else content);
              tol = (if chunk_usage resp = 0 then num_tokens_from_string d content
                     else chunk_usage resp);
              ans = (if chunk_finish_reason c0 = Some (py ''length'')
                     then (if is_chinese d ans then ans @ LENGTH_NOTIFICATION_CN
                           else ans @ LENGTH_NOTIFICATION_EN)
                     else ans)
          in (ans, tol) # chat_streamly_chunks d with_reasoning reasoning rest)"

text \<open>
  The generator \<open>_chat_streamly\<close>: the request, then the items yielded and the exception
  that ends the iteration, if any.
\<close>

definition chat_streamly_inner ::
  "adapter \<Rightarrow> 'j deps \<Rightarrow> 'v provider \<Rightarrow> message list \<Rightarrow> (pystr \<rightharpoonup> 'v) \<Rightarrow> bool \<Rightarrow> 'v world
     \<Rightarrow> ((pystr \<times> nat) list \<times> pyexn option) \<times> 'v world" where
  "chat_streamly_inner a d prov history gen_conf with_reasoning w =
     (let req = \<lparr>req_messages = history, req_conf = gen_conf, req_stream = True,
                 req_tools = False\<rparr>;
          w' = w\<lparr>requests := requests w @ [req]\<rparr>
      in case create_stream prov (length (requests w)) req of
           Inl e \<Rightarrow> (([], Some e), w')
         | Inr (chunks, err) \<Rightarrow> ((chat_streamly_chunks d with_reasoning False chunks, err), w'))"

text \<open>The loop of \<open>_chat\<close> over the streamed items of a reasoning (\<open>qwq\<close>) model.\<close>

definition collect_final_ans :: "(pystr \<times> nat) list \<Rightarrow> pystr \<times> nat" where
  "collect_final_ans items =
     foldl (\<lambda>(final_ans, tol_token) (delta, tol).
              if startswith delta (py ''<think>'') \<or> endswith delta (py ''</think>'')
              then (final_ans, tol_token)
              else (final_ans @ delta, tol)) ([], 0) items"

text \<open>\<open>Base._chat\<close>: \<open>Inl\<close> is an exception that leaves the method.\<close>

definition chat_inner ::
  "adapter \<Rightarrow> 'j deps \<Rightarrow> 'v provider \<Rightarrow> message list \<Rightarrow> (pystr \<rightharpoonup> 'v) \<Rightarrow> 'v world
     \<Rightarrow> (pyexn + pystr \<times> nat) \<times> 'v world" where
  "chat_inner a d prov history gen_conf w =
     (if contains (py ''qwq'') (lower (model_name a)) then
        (case chat_streamly_inner a d prov history gen_conf False w of
           ((items, Some e), w') \<Rightarrow> (Inl e, w')
         | ((items, None), w') \<Rightarrow>
             let (final_ans, tol_token) = collect_final_ans items;
                 final_ans = (if length (strip final_ans) = 0
                              then py ''**ERROR**: Empty response from reasoning model''
                              else final_ans)
             in (Inr (strip final_ans, tol_token), w'))
      else
        let req = \<lparr>req_messages = history, req_conf = gen_conf, req_stream = False,
                   req_tools = False\<rparr>;
            w' = w\<lparr>requests := requests w @ [req]\<rparr>
        in case create prov (length (requests w)) req of
             Inl e \<Rightarrow> (Inl e, w')
           | Inr response \<Rightarrow>
               (case choices response of
                  [] \<Rightarrow> (Inr ([], 0), w')
                | c0 # _ \<Rightarrow>
                    (case choice_message c0 of
                       None \<Rightarrow> (Inr ([], 0), w')
                     | Some m \<Rightarrow>
                         if \<not> truthy (msg_content m) then (Inr ([], 0), w')
                         else
                           let ans = strip (or_empty (msg_content m));
                               ans = (if finish_reason c0 = Some (py ''length'')
                                      then length_stop d ans else ans)
                           in (Inr (ans, usage response), w'))))"

definition assert_false :: pyexn where
  "assert_false = AssertionError (py ''Shouldn'' @ [39] @ py ''t be here.'')"

text \<open>
  The retry loop of \<open>Base.chat\<close>: \<open>for attempt in range(self.max_retries + 1)\<close>, with the
  number of iterations left as the first counter.  Falling out of the loop reaches
  \<open>assert False\<close>.
\<close>

fun chat_attempts ::
  "adapter \<Rightarrow> 'j deps \<Rightarrow> 'v provider \<Rightarrow> message list \<Rightarrow> (pystr \<rightharpoonup> 'v) \<Rightarrow> nat \<Rightarrow> nat \<Rightarrow> 'v world
     \<Rightarrow> (pyexn + pystr \<times> nat) \<times> 'v world" where
  "chat_attempts a d prov history gen_conf 0 attempt w = (Inl assert_false, w)"
| "chat_attempts a d prov history gen_conf (Suc k) attempt w =
     (case chat_inner a d prov history gen_conf w of
        (Inr r, w') \<Rightarrow> (Inr r, w')
      | (Inl e, w') \<Rightarrow>
          (case exceptions (max_retries a) e attempt of
             Some msg \<Rightarrow> (Inr (msg, 0), w')
           | None \<Rightarrow> chat_attempts a d prov history gen_conf k (Suc attempt)
                       (w'\<lparr>sleeps := Suc (sleeps w')\<rparr>)))"

definition chat ::
  "adapter \<Rightarrow> 'j deps \<Rightarrow> 'v provider \<Rightarrow> pystr \<Rightarrow> message list \<Rightarrow> (pystr \<rightharpoonup> 'v)
     \<Rightarrow> (pyexn + pystr \<times> nat) \<times> 'v world" where
  "chat a d prov system history gen_conf =
     (let history = insert_system system history;
          gen_conf = clean_conf (model_name a) gen_conf
      in chat_attempts a d prov history gen_conf (nat (max_retries a + 1)) 0 world0)"

text \<open>
  \<open>Base.chat_streamly\<close>, a generator: the items it yields, in order, and the exception
  that leaves it, if any.  Only \<open>openai.APIError\<close> is caught.
\<close>

datatype item = Text pystr | TokenCount nat

definition chat_streamly ::
  "adapter \<Rightarrow> 'j deps \<Rightarrow> 'v provider \<Rightarrow> pystr \<Rightarrow> message list \<Rightarrow> (pystr \<rightharpoonup> 'v)
     \<Rightarrow> (item list \<times> pyexn option) \<times> 'v world" where
  "chat_streamly a d prov system history gen_conf =
     (let history = insert_system system history;
          gen_conf = clean_conf (model_name a) gen_conf;
          ans = []
      in case chat_streamly_inner a d prov history gen_conf True world0 of
           ((items, err), w') \<Rightarrow>
             let yielded = map (\<lambda>(delta_ans, tol). Text delta_ans) items;
                 total_tokens = foldl (\<lambda>total_tokens (delta_ans, tol). total_tokens + tol) 0 items
             in (case err of
                   None \<Rightarrow> ((yielded @ [TokenCount total_tokens], None), w')
                 | Some (APIError m) \<Rightarrow>
                     ((yielded @ [Text (ans @ [10] @ py ''**ERROR**: '' @ m),
                                  TokenCount total_tokens], None), w')
                 | Some e \<Rightarrow> ((yielded, Some e), w')))"

section \<open>ToolCallLoop: \<open>Base.chat_with_tools\<close> and \<open>Base.async_chat_with_tools\<close>\<close>

definition verbose_tool_use :: "'j deps \<Rightarrow> pystr \<Rightarrow> 'j \<Rightarrow> 'j \<Rightarrow> pystr" where
  "verbose_tool_use d name args res = py ''<tool_call>'' @ json_dumps d name args res @ py ''</tool_call>''"

text \<open>\<open>_append_history\<close>: the assistant entry that records the call, then the tool entry.\<close>

definition append_history :: "'j deps \<Rightarrow> message list \<Rightarrow> tool_call \<Rightarrow> 'j \<Rightarrow> message list" where
  "append_history d hist tc tool_res =
     hist @ [assistant_call_message tc, tool_message (tc_id tc) (result_text d tool_res)]"

text \<open>
  The local variables of \<open>chat_with_tools\<close> that outlive a round: the list object bound to
  \<open>history\<close>, \<open>ans\<close>, \<open>tk_count\<close>, and the effects.
\<close>

record 'v tstate =
  t_history :: "message list"
  t_ans :: pystr
  t_tk_count :: nat
  t_world :: "'v world"

text \<open>
  The body of \<open>for tool_call in response.choices[0].message.tool_calls\<close>: the \<open>try\<close> branch
  when the arguments parse and the tool returns, the \<open>except\<close> branch otherwise.
\<close>

definition tool_call_failed :: "'j deps \<Rightarrow> tool_call \<Rightarrow> pyexn \<Rightarrow> 'v tstate \<Rightarrow> 'v tstate" where
  "tool_call_failed d tc e st =
     st\<lparr>t_history := t_history st @
           [tool_message (tc_id tc)
              (py ''Tool call error: '' @ [10] @ repr_tool_call d tc @ [10] @ py ''Exception:'' @ [10]
                 @ str_exn e)],
        t_ans := t_ans st @ verbose_tool_use d (tc_name tc) (empty_dict d) (json_str d (str_exn e))\<rparr>"

definition handle_tool_call :: "'j deps \<Rightarrow> 'v tstate \<Rightarrow> tool_call \<Rightarrow> 'v tstate" where
  "handle_tool_call d st tc =
     (let name = tc_name tc
      in case json_loads d (tc_arguments tc) of
           Inl e \<Rightarrow> tool_call_failed d tc e st
         | Inr args \<Rightarrow>
             (case run_tool d name args of
                Inl e \<Rightarrow> tool_call_failed d tc e st
              | Inr tool_response \<Rightarrow>
                  st\<lparr>t_history := append_history d (t_history st) tc tool_response,
                     t_ans := t_ans st @ verbose_tool_use d name args tool_response\<rparr>))"

text \<open>
  How the inner loop \<open>for _ in range(self.max_rounds + 1)\<close> ends: an exception, a \<open>return\<close>,
  or exhaustion of the range.
\<close>

datatype 'a flow = Raised pyexn 'a | Returned pystr nat 'a | Exhausted 'a

definition none_type_concat :: pyexn where
  "none_type_concat =
     OtherError (py ''can only concatenate str (not '' @ [34] @ py ''NoneType'' @ [34] @ py '') to str'')"

fun tool_rounds ::
  "adapter \<Rightarrow> 'j deps \<Rightarrow> 'v provider \<Rightarrow> (pystr \<rightharpoonup> 'v) \<Rightarrow> nat \<Rightarrow> 'v tstate \<Rightarrow> 'v tstate flow" where
  "tool_rounds a d prov gen_conf 0 st = Exhausted st"
| "tool_rounds a d prov gen_conf (Suc k) st =
     (let req = \<lparr>req_messages = t_history st, req_conf = gen_conf, req_stream = False,
                 req_tools = True\<rparr>;
          w = t_world st;
          st = st\<lparr>t_world := w\<lparr>requests := requests w @ [req]\<rparr>\<rparr>
      in case create prov (length (requests w)) req of
           Inl e \<Rightarrow> Raised e st
         | Inr response \<Rightarrow>
             let st = st\<lparr>t_tk_count := t_tk_count st + usage response\<rparr>
             in (case choices response of
                   [] \<Rightarrow> Raised (OtherError (py ''list index out of range'')) st
                 | c0 # _ \<Rightarrow>
                     (case choice_message c0 of
                        None \<Rightarrow>
                          Raised (OtherError (py ''500 response structure error. Response: ''
                                    @ repr_completion d response)) st
                      | Some m \<Rightarrow>
                          if msg_tool_calls m = [] then
                            let st = (if truthy (msg_reasoning_content m)
                                      then st\<lparr>t_ans := t_ans st @ py ''<think>'' @
                                             or_empty (msg_reasoning_content m) @ py ''</think>''\<rparr>
                                      else st)
                            in (case msg_content m of
                                  None \<Rightarrow> Raised none_type_concat st
                                | Some c \<Rightarrow>
                                    let ans = t_ans st @ c;
                                        ans = (if finish_reason c0 = Some (py ''length'')
                                               then length_stop d ans else ans)
                                    in Returned ans (t_tk_count st) (st\<lparr>t_ans := ans\<rparr>))
                          else
                            tool_rounds a d prov gen_conf k
                              (foldl (handle_tool_call d) st (msg_tool_calls m)))))"

definition exceed_message :: "adapter \<Rightarrow> message" where
  "exceed_message a = user_message (py ''Exceed max rounds: '' @ str_int (max_rounds a))"

text \<open>
  The body of the \<open>try\<close> statement: the rounds, then the forced final plain request.
  \<open>Inl\<close> is the exception that reaches the \<open>except\<close> clause.
\<close>

definition tools_attempt ::
  "adapter \<Rightarrow> 'j deps \<Rightarrow> 'v provider \<Rightarrow> (pystr \<rightharpoonup> 'v) \<Rightarrow> 'v tstate
     \<Rightarrow> (pyexn + pystr \<times> nat) \<times> 'v tstate" where
  "tools_attempt a d prov gen_conf st =
     (case tool_rounds a d prov gen_conf (nat (max_rounds a + 1)) st of
        Raised e st' \<Rightarrow> (Inl e, st')
      | Returned ans tk st' \<Rightarrow> (Inr (ans, tk), st')
      | Exhausted st' \<Rightarrow>
          let st' = st'\<lparr>t_history := t_history st' @ [exceed_message a]\<rparr>
          in (case chat_inner a d prov (t_history st') gen_conf (t_world st') of
                (Inl e, w') \<Rightarrow> (Inl e, st'\<lparr>t_world := w'\<rparr>)
              | (Inr (response, token_count), w') \<Rightarrow>
                  (Inr (t_ans st' @ response, t_tk_count st' + token_count),
                   st'\<lparr>t_ans := t_ans st' @ response,
                       t_tk_count := t_tk_count st' + token_count, t_world := w'\<rparr>)))"

text \<open>
  The retry loop \<open>for attempt in range(self.max_retries + 1)\<close>.  \<open>hist\<close> is the list object
  made by \<open>hist = deepcopy(history)\<close> before the loop.  With \<open>copy\<close> false the attempt starts
  with \<open>history = hist\<close> (\<open>Base.chat_with_tools\<close>, line 370): \<open>history\<close> is the same object as
  \<open>hist\<close>, so what an attempt appends is appended to \<open>hist\<close>.  With \<open>copy\<close> true it starts with
  \<open>history = deepcopy(hist)\<close> (\<open>Base.async_chat_with_tools\<close>, line 424) and \<open>hist\<close> stays as it
  was.  \<open>ans\<close> and \<open>tk_count\<close> are set before the loop and carried from attempt to attempt.
\<close>

fun tools_attempts ::
  "bool \<Rightarrow> adapter \<Rightarrow> 'j deps \<Rightarrow> 'v provider \<Rightarrow> (pystr \<rightharpoonup> 'v) \<Rightarrow> message list \<Rightarrow> nat \<Rightarrow> nat
     \<Rightarrow> 'v tstate \<Rightarrow> (pyexn + pystr \<times> nat) \<times> 'v tstate" where
  "tools_attempts copy a d prov gen_conf hist 0 attempt st = (Inl assert_false, st)"
| "tools_attempts copy a d prov gen_conf hist (Suc k) attempt st =
     (case tools_attempt a d prov gen_conf (st\<lparr>t_history := hist\<rparr>) of
        (Inr r, st') \<Rightarrow> (Inr r, st')
      | (Inl e, st') \<Rightarrow>
          (case exceptions (max_retries a) e attempt of
             Some msg \<Rightarrow> (Inr (msg, t_tk_count st'), st')
           | None \<Rightarrow>
               tools_attempts copy a d prov gen_conf (if copy then hist else t_history st')
                 k (Suc attempt)
                 (st'\<lparr>t_world := (t_world st')\<lparr>sleeps := Suc (sleeps (t_world st'))\<rparr>\<rparr>)))"

definition tools_call ::
  "bool \<Rightarrow> adapter \<Rightarrow> 'j deps \<Rightarrow> 'v provider \<Rightarrow> pystr \<Rightarrow> message list \<Rightarrow> (pystr \<rightharpoonup> 'v)
     \<Rightarrow> (pyexn + pystr \<times> nat) \<times> 'v world" where
  "tools_call copy a d prov system history gen_conf =
     (let gen_conf = clean_conf (model_name a) gen_conf;
          history = insert_system system history;
          hist = history
      in case tools_attempts copy a d prov gen_conf hist (nat (max_retries a + 1)) 0
                \<lparr>t_history = hist, t_ans = [], t_tk_count = 0, t_world = world0\<rparr> of
           (r, st) \<Rightarrow> (r, t_world st))"

definition chat_with_tools ::
  "adapter \<Rightarrow> 'j deps \<Rightarrow> 'v provider \<Rightarrow> pystr \<Rightarrow> message list \<Rightarrow> (pystr \<rightharpoonup> 'v)
     \<Rightarrow> (pyexn + pystr \<times> nat) \<times> 'v world" where
  "chat_with_tools = tools_call False"

definition async_chat_with_tools ::
  "adapter \<Rightarrow> 'j deps \<Rightarrow> 'v provider \<Rightarrow> pystr \<Rightarrow> message list \<Rightarrow> (pystr \<rightharpoonup> 'v)
     \<Rightarrow> (pyexn + pystr \<times> nat) \<times> 'v world" where
  "async_chat_with_tools = tools_call True"

section \<open>StreamAssembler: the chunk loop of \<open>Base.chat_streamly_with_tools\<close>\<close>



text \<open>The variables of one round of the streaming loop, and the items yielded so far.\<close>

record sstate =
  final_tool_calls :: "(int \<times> tool_call) list"
  answer :: pystr
  reasoning_start :: bool
  total_tokens :: nat
  yielded :: "pystr list"




section \<open>Concrete environments for the examples\<close>

text \<open>A stub environment, an adapter with two retries and one tool round, and a provider
  that answers every request with a rate-limit error.\<close>

definition demo_deps :: "pystr deps" where
  "demo_deps =
     \<lparr>num_tokens_from_string = length, is_chinese = (\<lambda>s. False), is_chinese_list = (\<lambda>l. False),
      json_loads = (\<lambda>s. Inr (or_empty s)), empty_dict = py ''{}'', json_str = (\<lambda>s. s),
      run_tool = (\<lambda>name args. Inr (py ''42'')), result_text = (\<lambda>r. r),
      json_dumps = (\<lambda>name args res. name @ py ''('' @ args @ py '')='' @ res),
      repr_completion = (\<lambda>r. py ''ChatCompletion''), repr_tool_call = tc_name\<rparr>"

definition demo_adapter :: adapter where
  "demo_adapter = \<lparr>model_name = py ''gpt-4o'', max_retries = 2, max_rounds = 1\<rparr>"

definition busy_provider :: "int provider" where
  "busy_provider =
     \<lparr>create = (\<lambda>n req. Inl (APIError (py ''429 Too Many Requests''))),
      create_stream = (\<lambda>n req. Inl (APIError (py ''429 Too Many Requests'')))\<rparr>"



definition broken_provider :: "int provider" where
  "broken_provider =
     \<lparr>create = (\<lambda>n req. Inl (OtherError (py ''Expecting value''))),
      create_stream = (\<lambda>n req. Inl (OtherError (py ''Expecting value'')))\<rparr>"

text \<open>A provider whose stream delivers one chunk and then breaks with an API error.\<close>

definition dropping_provider :: "int provider" where
  "dropping_provider =
     \<lparr>create = (\<lambda>n req. Inl (APIError (py ''Connection error.''))),
      create_stream = (\<lambda>n req.
        Inr ([\<lparr>chunk_choices =
                  [\<lparr>chunk_delta = \<lparr>delta_content = Some (py ''Hello''),
                      delta_reasoning_content = None, delta_tool_calls = []\<rparr>,
                    chunk_finish_reason = None\<rparr>],
                chunk_usage = 7\<rparr>], Some (APIError (py ''Connection error.''))))\<rparr>"



text \<open>
  Responses of a model: one that requests a tool call and one that answers in text; a
  provider that requests a tool call whenever tools are attached and answers otherwise;
  and a provider whose first request asks for a tool call, whose second fails with a
  rate-limit error, and whose later requests answer in text.
\<close>

definition tool_call_response :: completion where
  "tool_call_response =
     \<lparr>choices =
        [\<lparr>choice_message = Some \<lparr>msg_content = None, msg_reasoning_content = None,
            msg_tool_calls = [\<lparr>tc_index = 0, tc_id = py ''call_1'', tc_name = py ''get_weather'',
                               tc_arguments = Some (py ''{}'')\<rparr>]\<rparr>,
          finish_reason = Some (py ''tool_calls'')\<rparr>],
      usage = 10\<rparr>"

definition text_response :: completion where
  "text_response =
     \<lparr>choices =
        [\<lparr>choice_message = Some \<lparr>msg_content = Some (py ''Done.''), msg_reasoning_content = None,
            msg_tool_calls = []\<rparr>,
          finish_reason = Some (py ''stop'')\<rparr>],
      usage = 5\<rparr>"

definition tool_provider :: "int provider" where
  "tool_provider =
     \<lparr>create = (\<lambda>n req. if req_tools req then Inr tool_call_response else Inr text_response),
      create_stream = (\<lambda>n req. Inr ([], None))\<rparr>"

definition flaky_provider :: "int provider" where
  "flaky_provider =
     \<lparr>create = (\<lambda>n req. if n = 0 then Inr tool_call_response
                         else if n = 1 then Inl (APIError (py ''429 Too Many Requests''))
                         else Inr text_response),
      create_stream = (\<lambda>n req. Inr ([], None))\<rparr>"


section \<open>Properties\<close>

lemma py_append: "py (a @ b) = py a @ py b"
  by (simp add: py_def)


lemmas classifier_defs = re_search_words_def rate_limit_words_def quota_words_def lower_def
  lower_char_def py_def classify_error_def keywords_mapping_def should_retry_def
  retryable_errors_def

lemma startswith_iff: "startswith s w \<longleftrightarrow> (\<exists>t. s = w @ t)"
  by (induction s w rule: startswith.induct) auto

lemma contains_iff: "contains w s \<longleftrightarrow> (\<exists>p t. s = p @ w @ t)"
proof (induction s)
  case Nil
  then show ?case by auto
next
  case (Cons c s)
  show ?case
  proof
    assume "contains w (c # s)"
    then consider "startswith (c # s) w" | "contains w s" by auto
    then show "\<exists>p t. c # s = p @ w @ t"
    proof cases
      case 1
      then obtain t where "c # s = w @ t" by (auto simp: startswith_iff)
      then have "c # s = [] @ w @ t" by simp
      then show ?thesis by blast
    next
      case 2
      then obtain p t where "s = p @ w @ t" using Cons.IH by blast
      then have "c # s = (c # p) @ w @ t" by simp
      then show ?thesis by blast
    qed
  next
    assume "\<exists>p t. c # s = p @ w @ t"
    then obtain p t where pt: "c # s = p @ w @ t" by blast
    show "contains w (c # s)"
    proof (cases p)
      case Nil
      with pt have "startswith (c # s) w" by (auto simp: startswith_iff)
      then show ?thesis by simp
    next
      case (Cons d q)
      with pt have "s = q @ w @ t" by simp
      then have "contains w s" using Cons.IH by blast
      then show ?thesis by simp
    qed
  qed
qed

lemma re_search_words_iff:
  "re_search_words words s \<longleftrightarrow> (\<exists>w \<in> set words. \<exists>p t. s = p @ w @ t)"
  by (simp add: re_search_words_def list_ex_iff contains_iff)

lemma classify_loop_first_match:
  assumes "\<forall>g \<in> set pre. \<not> re_search_words (fst g) s"
      and "re_search_words ws s"
  shows "classify_loop (pre @ (ws, c) # post) s = c"
  using assms by (induction pre) (auto split: prod.splits)

lemma classify_loop_none:
  assumes "\<forall>g \<in> set m. \<not> re_search_words (fst g) s"
  shows "classify_loop m s = ERROR_GENERIC"
  using assms by (induction m) (auto split: prod.splits)

lemma keywords_mapping_split:
  "\<exists>post. keywords_mapping =
     [(quota_words, ERROR_QUOTA)] @ (rate_limit_words, ERROR_RATE_LIMIT) # post"
  by (simp add: keywords_mapping_def)

subsection \<open>C3: classification of rate-limit errors\<close>

text \<open>
  C3, as stated, fails: an error text that holds a rate-limit keyword and also a keyword of
  the quota group, which is declared first, is classified \<open>QUOTA_EXCEEDED\<close> and is not
  retried.  The text below is the shape of a provider's "insufficient quota" reply.
\<close>

theorem classify_rate_limit_counterexample:
  "contains (py ''429'') (lower (str_exn (APIError (py ''Error code: 429 - You exceeded your current quota''))))
   \<and> py ''429'' \<in> set rate_limit_words
   \<and> classify_error (APIError (py ''Error code: 429 - You exceeded your current quota'')) = ERROR_QUOTA
   \<and> \<not> should_retry (classify_error (APIError (py ''Error code: 429 - You exceeded your current quota'')))"
  by (simp add: classifier_defs)

text \<open>
  C3 (amended): when the lower-cased text of an error holds a rate-limit keyword and no
  keyword of the quota group, \<open>_classify_error\<close> returns \<open>RATE_LIMIT_EXCEEDED\<close> and
  \<open>_should_retry\<close> is true for it; the groups are tried in declaration order and the first
  group that matches decides the code, whatever follows it; the quota group is declared
  first and the rate-limit group second.
\<close>

theorem classify_rate_limit_first_match:
  "(re_search_words rate_limit_words (lower (str_exn e)) \<and>
      \<not> re_search_words quota_words (lower (str_exn e))
      \<longrightarrow> classify_error e = ERROR_RATE_LIMIT \<and> should_retry (classify_error e))
   \<and> (\<forall>pre ws c post.
         (\<forall>g \<in> set pre. \<not> re_search_words (fst g) (lower (str_exn e))) \<and>
         re_search_words ws (lower (str_exn e))
         \<longrightarrow> classify_loop (pre @ (ws, c) # post) (lower (str_exn e)) = c)
   \<and> (\<exists>post. keywords_mapping =
          (quota_words, ERROR_QUOTA) # (rate_limit_words, ERROR_RATE_LIMIT) # post)"
proof (intro conjI impI allI)
  assume h: "re_search_words rate_limit_words (lower (str_exn e)) \<and>
      \<not> re_search_words quota_words (lower (str_exn e))"
  obtain post where km: "keywords_mapping =
      [(quota_words, ERROR_QUOTA)] @ (rate_limit_words, ERROR_RATE_LIMIT) # post"
    using keywords_mapping_split by blast
  have "classify_loop keywords_mapping (lower (str_exn e)) = ERROR_RATE_LIMIT"
    unfolding km using h by (intro classify_loop_first_match) auto
  then show cr: "classify_error e = ERROR_RATE_LIMIT" by (simp add: classify_error_def)
  show "should_retry (classify_error e)" by (simp add: cr should_retry_def retryable_errors_def)
next
  fix pre :: "(pystr list \<times> LLMErrorCode) list" and ws :: "pystr list" and c :: LLMErrorCode
    and post :: "(pystr list \<times> LLMErrorCode) list"
  assume "(\<forall>g \<in> set pre. \<not> re_search_words (fst g) (lower (str_exn e))) \<and>
         re_search_words ws (lower (str_exn e))"
  then show "classify_loop (pre @ (ws, c) # post) (lower (str_exn e)) = c"
    by (simp add: classify_loop_first_match)
next
  show "\<exists>post. keywords_mapping =
          (quota_words, ERROR_QUOTA) # (rate_limit_words, ERROR_RATE_LIMIT) # post"
    by (simp add: keywords_mapping_def)
qed

theorem classify_rate_limit_first_match_witness:
  "re_search_words rate_limit_words (lower (str_exn (APIError (py ''429 Too Many Requests''))))
   \<and> \<not> re_search_words quota_words (lower (str_exn (APIError (py ''429 Too Many Requests''))))
   \<and> classify_error (APIError (py ''429 Too Many Requests'')) = ERROR_RATE_LIMIT
   \<and> should_retry (classify_error (APIError (py ''429 Too Many Requests'')))
   \<and> classify_loop ([([py ''quota''], ERROR_QUOTA)] @ ([py ''429''], ERROR_RATE_LIMIT) # [])
        (lower (str_exn (APIError (py ''429 Too Many Requests'')))) = ERROR_RATE_LIMIT"
proof -
  let ?e = "APIError (py ''429 Too Many Requests'')"
  note t = classify_rate_limit_first_match [of ?e]
  have a: "re_search_words rate_limit_words (lower (str_exn ?e))"
    by (simp add: classifier_defs)
  have b: "\<not> re_search_words quota_words (lower (str_exn ?e))"
    by (simp add: classifier_defs)
  have c: "\<forall>g \<in> set [([py ''quota''], ERROR_QUOTA)]. \<not> re_search_words (fst g) (lower (str_exn ?e))"
    by (simp add: classifier_defs)
  have d: "re_search_words [py ''429''] (lower (str_exn ?e))"
    by (simp add: classifier_defs)
  have ab: "re_search_words rate_limit_words (lower (str_exn ?e)) \<and>
      \<not> re_search_words quota_words (lower (str_exn ?e))"
    using a b by (rule conjI)
  have r1: "classify_error ?e = ERROR_RATE_LIMIT \<and> should_retry (classify_error ?e)"
    using t [THEN conjunct1] ab by (rule mp)
  have cd: "(\<forall>g \<in> set [([py ''quota''], ERROR_QUOTA)].
        \<not> re_search_words (fst g) (lower (str_exn ?e))) \<and>
      re_search_words [py ''429''] (lower (str_exn ?e))"
    using c d by (rule conjI)
  have r2: "classify_loop ([([py ''quota''], ERROR_QUOTA)] @ ([py ''429''], ERROR_RATE_LIMIT) # [])
        (lower (str_exn ?e)) = ERROR_RATE_LIMIT"
    using t [THEN conjunct2, THEN conjunct1] cd by blast
  from a b r1 r2 show ?thesis by blast
qed


subsection \<open>C7: cleaning the generation config\<close>

lemma max_tokens_not_allowed: "py ''max_tokens'' \<notin> allowed_conf"
  by (simp add: allowed_conf_def py_def)

text \<open>
  C7, as stated, fails for the LiteLLM adapter: its \<open>_clean_conf\<close> has no allow-list and
  does not look at the model name, so a key outside the allow-list of \<open>Base\<close> survives and
  the config is not emptied, whatever the model.
\<close>

theorem clean_conf_counterexample:
  "litellm_clean_conf [py ''top_k'' \<mapsto> (40::int)] (py ''top_k'') = Some 40
   \<and> py ''top_k'' \<notin> allowed_conf
   \<and> litellm_clean_conf [py ''top_k'' \<mapsto> (40::int)] \<noteq> Map.empty"
proof -
  have a: "litellm_clean_conf [py ''top_k'' \<mapsto> (40::int)] (py ''top_k'') = Some 40"
    by (simp add: litellm_clean_conf_def py_def)
  have b: "py ''top_k'' \<notin> allowed_conf"
    by (simp add: allowed_conf_def py_def)
  from a have c: "litellm_clean_conf [py ''top_k'' \<mapsto> (40::int)] \<noteq> Map.empty"
    by (metis option.distinct(1))
  from a b c show ?thesis by blast
qed

text \<open>
  C7 (amended): \<open>Base._clean_conf\<close> keeps only keys of its allow-list, never keeps
  \<open>max_tokens\<close>, returns the empty config when the lower-cased model name contains
  \<open>gpt-5\<close>, and otherwise keeps every allowed key with its value;
  \<open>LiteLLMBase._clean_conf\<close> removes \<open>max_tokens\<close> and leaves every other key as it is.
\<close>

theorem clean_conf_base_and_litellm:
  "dom (clean_conf name gen_conf) \<subseteq> allowed_conf
   \<and> clean_conf name gen_conf (py ''max_tokens'') = None
   \<and> (contains (py ''gpt-5'') (lower name) \<longrightarrow> clean_conf name gen_conf = Map.empty)
   \<and> (\<not> contains (py ''gpt-5'') (lower name) \<longrightarrow>
        (\<forall>k \<in> allowed_conf. clean_conf name gen_conf k = gen_conf k))
   \<and> litellm_clean_conf gen_conf (py ''max_tokens'') = None
   \<and> (\<forall>k. k \<noteq> py ''max_tokens'' \<longrightarrow> litellm_clean_conf gen_conf k = gen_conf k)"
proof (intro conjI impI ballI allI)
  show "dom (clean_conf name gen_conf) \<subseteq> allowed_conf"
    by (auto simp: clean_conf_def Let_def restrict_map_def split: if_splits)
  show "clean_conf name gen_conf (py ''max_tokens'') = None"
    using max_tokens_not_allowed by (simp add: clean_conf_def Let_def restrict_map_def)
  show "clean_conf name gen_conf = Map.empty" if "contains (py ''gpt-5'') (lower name)"
    using that by (simp add: clean_conf_def Let_def)
  show "clean_conf name gen_conf k = gen_conf k"
    if "\<not> contains (py ''gpt-5'') (lower name)" and "k \<in> allowed_conf" for k
    using that max_tokens_not_allowed by (auto simp: clean_conf_def Let_def restrict_map_def)
  show "litellm_clean_conf gen_conf (py ''max_tokens'') = None"
    by (simp add: litellm_clean_conf_def)
  show "litellm_clean_conf gen_conf k = gen_conf k" if "k \<noteq> py ''max_tokens''" for k
    using that by (simp add: litellm_clean_conf_def)
qed

text \<open>
  The amended C7 at concrete configs and model names.
\<close>

theorem clean_conf_base_and_litellm_witness:
  "contains (py ''gpt-5'') (lower (py ''GPT-5.1''))
   \<and> clean_conf (py ''GPT-5.1'') [py ''temperature'' \<mapsto> (1::int), py ''max_tokens'' \<mapsto> 100] = Map.empty
   \<and> \<not> contains (py ''gpt-5'') (lower (py ''gpt-4o''))
   \<and> py ''temperature'' \<in> allowed_conf
   \<and> clean_conf (py ''gpt-4o'') [py ''temperature'' \<mapsto> (1::int), py ''max_tokens'' \<mapsto> 100]
        (py ''temperature'') = Some 1
   \<and> py ''top_k'' \<noteq> py ''max_tokens''
   \<and> litellm_clean_conf [py ''top_k'' \<mapsto> (40::int), py ''max_tokens'' \<mapsto> 100] (py ''top_k'') = Some 40"
proof -
  let ?c = "[py ''temperature'' \<mapsto> (1::int), py ''max_tokens'' \<mapsto> 100]"
  let ?d = "[py ''top_k'' \<mapsto> (40::int), py ''max_tokens'' \<mapsto> 100]"
  note t5 = clean_conf_base_and_litellm [of "py ''GPT-5.1''" ?c]
  note t4 = clean_conf_base_and_litellm [of "py ''gpt-4o''" ?c]
  note tl = clean_conf_base_and_litellm [of "py ''gpt-4o''" ?d]
  have a: "contains (py ''gpt-5'') (lower (py ''GPT-5.1''))"
    by (simp add: py_def lower_def lower_char_def)
  have b: "\<not> contains (py ''gpt-5'') (lower (py ''gpt-4o''))"
    by (simp add: py_def lower_def lower_char_def)
  have c: "py ''temperature'' \<in> allowed_conf"
    by (simp add: allowed_conf_def)
  have d: "py ''top_k'' \<noteq> py ''max_tokens''"
    by (simp add: py_def)
  have r5: "clean_conf (py ''GPT-5.1'') ?c = Map.empty"
    using t5 a by blast
  have tv: "?c (py ''temperature'') = Some 1"
    by (simp add: py_def)
  have r4: "clean_conf (py ''gpt-4o'') ?c (py ''temperature'') = Some 1"
    using t4 b c tv by simp
  have dv: "?d (py ''top_k'') = Some 40"
    by (simp add: py_def)
  have rl: "litellm_clean_conf ?d (py ''top_k'') = Some 40"
    using tl d dv by simp
  from a b c d r5 r4 rl show ?thesis by blast
qed

subsection \<open>C9: dynamic context window\<close>

lemma count_tokens_foldl:
  "foldl (\<lambda>total char. if char < (128::nat) then total + 1 else total + 2) a text
     = a + length (filter (\<lambda>c. c < 128) text) + 2 * length (filter (\<lambda>c. \<not> c < 128) text)"
  by (induction "text" arbitrary: a) auto

lemma count_tokens_eq:
  "count_tokens text = length (filter (\<lambda>c. c < 128) text) + 2 * length (filter (\<lambda>c. \<not> c < 128) text)"
  by (simp add: count_tokens_def count_tokens_foldl)

lemma count_tokens_replicate:
  "count_tokens (replicate n c) = (if c < 128 then n else 2 * n)"
  by (simp add: count_tokens_eq)

lemma history_tokens_foldl:
  "foldl (\<lambda>total_tokens message. total_tokens +
            (count_tokens (case content message of None \<Rightarrow> [] | Some c \<Rightarrow> c) + 4)) a history
   = a + (\<Sum>m\<leftarrow>history. count_tokens (case content m of None \<Rightarrow> [] | Some c \<Rightarrow> c) + 4)"
  by (induction history arbitrary: a) auto

lemma history_tokens_eq:
  "history_tokens history
     = (\<Sum>m\<leftarrow>history. count_tokens (case content m of None \<Rightarrow> [] | Some c \<Rightarrow> c) + 4)"
  by (simp add: history_tokens_def Let_def history_tokens_foldl)

text \<open>
  C9, as stated, fails in its last part: one message of 13650 ASCII characters has the
  buffered total 16384, an exact multiple of 8192, and the result is 24576, not 16384.
\<close>

theorem calculate_dynamic_ctx_counterexample:
  "with_buffer (history_tokens [user_message (replicate 13650 97)]) = 16384
   \<and> (16384::nat) = 2 * 8192
   \<and> calculate_dynamic_ctx [user_message (replicate 13650 97)] = 24576"
  by (simp add: calculate_dynamic_ctx_def Let_def with_buffer_def history_tokens_eq
      user_message_def count_tokens_replicate)

text \<open>
  C9 (amended): the total is the sum over the messages of one unit per ASCII character, two
  per other character and four per message; the buffered total \<open>b\<close> is the total \<open>t\<close> times
  1.2, truncated, that is \<open>b = \<lfloor>12 t / 10\<rfloor>\<close>, the integer with \<open>10 b \<le> 12 t < 10 b + 10\<close>; the
  result is a multiple of 8192, at least 8192; it is 8192 when the buffered
  total is at most 8192, and otherwise \<open>(b div 8192 + 1) * 8192\<close>, the smallest multiple of
  8192 strictly greater than the buffered total, so a buffered total above 8192 that is an exact multiple of 8192 maps
  to the next multiple.
\<close>

theorem calculate_dynamic_ctx_rounding:
  "history_tokens history
     = (\<Sum>m\<leftarrow>history. (length (filter (\<lambda>c. c < 128) (case content m of None \<Rightarrow> [] | Some c \<Rightarrow> c))
          + 2 * length (filter (\<lambda>c. \<not> c < 128) (case content m of None \<Rightarrow> [] | Some c \<Rightarrow> c))) + 4)
   \<and> with_buffer (history_tokens history) = (12 * history_tokens history) div 10
   \<and> 10 * with_buffer (history_tokens history) \<le> 12 * history_tokens history
   \<and> 12 * history_tokens history < 10 * with_buffer (history_tokens history) + 10
   \<and> 8192 dvd calculate_dynamic_ctx history
   \<and> 8192 \<le> calculate_dynamic_ctx history
   \<and> (with_buffer (history_tokens history) \<le> 8192 \<longrightarrow> calculate_dynamic_ctx history = 8192)
   \<and> (8192 < with_buffer (history_tokens history) \<longrightarrow>
         with_buffer (history_tokens history) < calculate_dynamic_ctx history
         \<and> calculate_dynamic_ctx history \<le> with_buffer (history_tokens history) + 8192
         \<and> calculate_dynamic_ctx history
               = (with_buffer (history_tokens history) div 8192 + 1) * 8192)
   \<and> (8192 < with_buffer (history_tokens history) \<and> 8192 dvd with_buffer (history_tokens history) \<longrightarrow>
         calculate_dynamic_ctx history = with_buffer (history_tokens history) + 8192)"
proof (intro conjI impI)
  let ?b = "with_buffer (history_tokens history)"
  show "history_tokens history
     = (\<Sum>m\<leftarrow>history. (length (filter (\<lambda>c. c < 128) (case content m of None \<Rightarrow> [] | Some c \<Rightarrow> c))
          + 2 * length (filter (\<lambda>c. \<not> c < 128) (case content m of None \<Rightarrow> [] | Some c \<Rightarrow> c))) + 4)"
    by (simp add: history_tokens_eq count_tokens_eq)
  show "with_buffer (history_tokens history) = (12 * history_tokens history) div 10"
    by (simp add: with_buffer_def mult.commute)
  show "10 * with_buffer (history_tokens history) \<le> 12 * history_tokens history"
    by (simp add: with_buffer_def)
  show "12 * history_tokens history < 10 * with_buffer (history_tokens history) + 10"
    unfolding with_buffer_def by arith
  show "8192 dvd calculate_dynamic_ctx history"
    by (simp add: calculate_dynamic_ctx_def Let_def)
  show "8192 \<le> calculate_dynamic_ctx history"
    by (simp add: calculate_dynamic_ctx_def Let_def)
  show "calculate_dynamic_ctx history = 8192" if "?b \<le> 8192"
    using that by (simp add: calculate_dynamic_ctx_def Let_def)
  have m: "?b = (?b div 8192) * 8192 + ?b mod 8192" by simp
  have lt: "?b mod 8192 < 8192" by simp
  show "?b < calculate_dynamic_ctx history" if "8192 < ?b"
    using that m lt by (simp add: calculate_dynamic_ctx_def Let_def)
  show "calculate_dynamic_ctx history \<le> ?b + 8192" if "8192 < ?b"
    using that m by (simp add: calculate_dynamic_ctx_def Let_def)
  show "calculate_dynamic_ctx history = (?b div 8192 + 1) * 8192" if "8192 < ?b"
    using that by (simp add: calculate_dynamic_ctx_def Let_def)
  show "calculate_dynamic_ctx history = ?b + 8192" if "8192 < ?b \<and> 8192 dvd ?b"
    using that by (auto simp: calculate_dynamic_ctx_def Let_def)
qed

text \<open>
  The amended C9 at concrete histories.
\<close>

theorem calculate_dynamic_ctx_rounding_witness:
  "history_tokens [user_message (replicate 20476 97)] = 20480
   \<and> with_buffer (history_tokens [user_message (replicate 20476 97)]) = 24576
   \<and> with_buffer (history_tokens [user_message (py ''Hi'')]) \<le> 8192
   \<and> calculate_dynamic_ctx [user_message (py ''Hi'')] = 8192
   \<and> 8192 < with_buffer (history_tokens [user_message (replicate 20000 97)])
   \<and> 8192 dvd with_buffer (history_tokens [user_message (replicate 20476 97)])
   \<and> 8192 < with_buffer (history_tokens [user_message (replicate 20476 97)])
   \<and> with_buffer (history_tokens [user_message (replicate 20000 97)])
        < calculate_dynamic_ctx [user_message (replicate 20000 97)]
   \<and> calculate_dynamic_ctx [user_message (replicate 20476 97)]
        = with_buffer (history_tokens [user_message (replicate 20476 97)]) + 8192"
proof -
  note t1 = calculate_dynamic_ctx_rounding [of "[user_message (py ''Hi'')]"]
  note t2 = calculate_dynamic_ctx_rounding [of "[user_message (replicate 20000 97)]"]
  note t3 = calculate_dynamic_ctx_rounding [of "[user_message (replicate 20476 97)]"]
  have a: "with_buffer (history_tokens [user_message (py ''Hi'')]) \<le> 8192"
    by (simp add: with_buffer_def history_tokens_eq user_message_def py_def count_tokens_eq)
  have b: "8192 < with_buffer (history_tokens [user_message (replicate 20000 97)])"
    by (simp add: with_buffer_def history_tokens_eq user_message_def count_tokens_replicate)
  have h: "history_tokens [user_message (replicate 20476 97)] = 20480"
    using t3 by (simp add: user_message_def)
  have "with_buffer (history_tokens [user_message (replicate 20476 97)])
      = (12 * history_tokens [user_message (replicate 20476 97)]) div 10"
    using t3 by blast
  then have c: "with_buffer (history_tokens [user_message (replicate 20476 97)]) = 24576"
    unfolding h by simp
  have c1: "8192 dvd with_buffer (history_tokens [user_message (replicate 20476 97)])"
    unfolding c by simp
  have c2: "8192 < with_buffer (history_tokens [user_message (replicate 20476 97)])"
    unfolding c by simp
  from t1 a have r1: "calculate_dynamic_ctx [user_message (py ''Hi'')] = 8192" by blast
  from t2 b have r2: "with_buffer (history_tokens [user_message (replicate 20000 97)])
        < calculate_dynamic_ctx [user_message (replicate 20000 97)]" by blast
  from t3 c1 c2 have r3: "calculate_dynamic_ctx [user_message (replicate 20476 97)]
        = with_buffer (history_tokens [user_message (replicate 20476 97)]) + 8192" by blast
  from h c a r1 b c1 c2 r2 r3 show ?thesis by blast
qed

subsection \<open>C2: retry exhaustion\<close>

lemma exceptions_retry:
  "int attempt \<noteq> N \<Longrightarrow> should_retry (classify_error e) \<Longrightarrow> exceptions N e attempt = None"
  by (simp add: exceptions_def Let_def)

lemma not_retry_max: "\<not> should_retry ERROR_MAX_RETRIES"
  by (simp add: should_retry_def retryable_errors_def)

lemma exceptions_last:
  "int attempt = N \<Longrightarrow> exceptions N e attempt = Some (format_error ERROR_MAX_RETRIES e)"
  by (simp add: exceptions_def Let_def not_retry_max)

lemma exceptions_Some:
  "exceptions N e attempt = Some msg \<Longrightarrow>
     msg = format_error (if int attempt = N then ERROR_MAX_RETRIES else classify_error e) e
     \<and> \<not> should_retry (if int attempt = N then ERROR_MAX_RETRIES else classify_error e)"
  by (auto simp: exceptions_def Let_def split: if_splits)

lemma chat_inner_world:
  "snd (chat_inner a d prov history gen_conf w)
     = w\<lparr>requests := requests w @
          [\<lparr>req_messages = history, req_conf = gen_conf,
            req_stream = contains (py ''qwq'') (lower (model_name a)), req_tools = False\<rparr>]\<rparr>"
  by (auto simp: chat_inner_def chat_streamly_inner_def Let_def
      split: sum.splits list.splits option.splits prod.splits)

lemma chat_inner_fails:
  assumes "\<forall>n req. \<exists>e. create prov n req = Inl e \<and> should_retry (classify_error e)"
      and "\<forall>n req. \<exists>e. create_stream prov n req = Inl e \<and> should_retry (classify_error e)"
  shows "\<exists>e. fst (chat_inner a d prov history gen_conf w) = Inl e \<and> should_retry (classify_error e)"
proof (cases "contains (py ''qwq'') (lower (model_name a))")
  case True
  obtain e where "create_stream prov (length (requests w))
      \<lparr>req_messages = history, req_conf = gen_conf, req_stream = True, req_tools = False\<rparr> = Inl e"
    and "should_retry (classify_error e)" using assms(2) by blast
  then show ?thesis using True
    by (simp add: chat_inner_def chat_streamly_inner_def Let_def)
next
  case False
  obtain e where "create prov (length (requests w))
      \<lparr>req_messages = history, req_conf = gen_conf, req_stream = False, req_tools = False\<rparr> = Inl e"
    and "should_retry (classify_error e)" using assms(1) by blast
  then show ?thesis using False
    by (simp add: chat_inner_def Let_def)
qed

lemma chat_attempts_exhaust:
  assumes "\<forall>n req. \<exists>e. create prov n req = Inl e \<and> should_retry (classify_error e)"
      and "\<forall>n req. \<exists>e. create_stream prov n req = Inl e \<and> should_retry (classify_error e)"
      and "int attempt + int k = max_retries a"
  shows "\<exists>e w'. chat_attempts a d prov history gen_conf (Suc k) attempt w
            = (Inr (format_error ERROR_MAX_RETRIES e, 0), w')
          \<and> length (requests w') = length (requests w) + k + 1
          \<and> sleeps w' = sleeps w + k"
  using assms(3)
proof (induction k arbitrary: attempt w)
  case 0
  obtain e where e: "fst (chat_inner a d prov history gen_conf w) = Inl e"
    using chat_inner_fails [OF assms(1,2)] by blast
  obtain w1 where w1: "chat_inner a d prov history gen_conf w = (Inl e, w1)"
    using e by (cases "chat_inner a d prov history gen_conf w") auto
  have "w1 = snd (chat_inner a d prov history gen_conf w)" using w1 by simp
  then have l: "length (requests w1) = length (requests w) + 1" "sleeps w1 = sleeps w"
    by (simp_all add: chat_inner_world)
  have "exceptions (max_retries a) e attempt = Some (format_error ERROR_MAX_RETRIES e)"
    using 0 by (intro exceptions_last) simp
  then show ?case using w1 l by auto
next
  case (Suc k)
  obtain e where e: "fst (chat_inner a d prov history gen_conf w) = Inl e"
    and r: "should_retry (classify_error e)"
    using chat_inner_fails [OF assms(1,2)] by blast
  obtain w1 where w1: "chat_inner a d prov history gen_conf w = (Inl e, w1)"
    using e by (cases "chat_inner a d prov history gen_conf w") auto
  have "w1 = snd (chat_inner a d prov history gen_conf w)" using w1 by simp
  then have l: "length (requests w1) = length (requests w) + 1" "sleeps w1 = sleeps w"
    by (simp_all add: chat_inner_world)
  have ex: "exceptions (max_retries a) e attempt = None"
    using Suc.prems r by (intro exceptions_retry) auto
  have "int (Suc attempt) + int k = max_retries a" using Suc.prems by simp
  from Suc.IH [OF this, of "w1\<lparr>sleeps := Suc (sleeps w1)\<rparr>"]
  obtain e' w' where
    "chat_attempts a d prov history gen_conf (Suc k) (Suc attempt) (w1\<lparr>sleeps := Suc (sleeps w1)\<rparr>)
       = (Inr (format_error ERROR_MAX_RETRIES e', 0), w')"
    "length (requests w') = length (requests (w1\<lparr>sleeps := Suc (sleeps w1)\<rparr>)) + k + 1"
    "sleeps w' = sleeps (w1\<lparr>sleeps := Suc (sleeps w1)\<rparr>) + k"
    by blast
  then show ?case using w1 ex l
    by (subst chat_attempts.simps) (auto simp del: chat_attempts.simps)
qed

text \<open>
  C2: when \<open>max_retries = N \<ge> 0\<close> and every provider request fails with an error classified
  as retryable, \<open>chat\<close> issues exactly \<open>N + 1\<close> requests, sleeps \<open>N\<close> times, and returns the
  error string whose code is \<open>MAX_RETRIES_EXCEEDED\<close> with token count 0.
\<close>

theorem chat_retry_exhaustion:
  assumes "0 \<le> max_retries a"
      and "\<forall>n req. \<exists>e. create prov n req = Inl e \<and> should_retry (classify_error e)"
      and "\<forall>n req. \<exists>e. create_stream prov n req = Inl e \<and> should_retry (classify_error e)"
  shows "\<exists>e w. chat a d prov system history gen_conf
             = (Inr (ERROR_PREFIX @ py '': '' @ py ''MAX_RETRIES_EXCEEDED'' @ py '' - '' @ str_exn e, 0), w)
           \<and> int (length (requests w)) = max_retries a + 1
           \<and> int (sleeps w) = max_retries a"
proof -
  obtain k where k: "nat (max_retries a + 1) = Suc k" "int k = max_retries a"
    using assms(1) by (metis add.commute nat_int of_nat_Suc zero_le_imp_eq_int nat_int)
  have "int 0 + int k = max_retries a" using k by simp
  from chat_attempts_exhaust [OF assms(2,3) this, of d "insert_system system history"
      "clean_conf (model_name a) gen_conf" world0]
  show ?thesis using k
    by (auto simp: chat_def Let_def world0_def format_error_def simp del: chat_attempts.simps)
qed

text \<open>C2 at \<open>max_retries = 2\<close> with a provider that always answers 429.\<close>

theorem chat_retry_exhaustion_witness:
  "0 \<le> max_retries demo_adapter
   \<and> should_retry (classify_error (APIError (py ''429 Too Many Requests'')))
   \<and> (\<exists>e w. chat demo_adapter demo_deps busy_provider (py ''You are helpful.'')
               [user_message (py ''Hi'')] Map.empty
             = (Inr (ERROR_PREFIX @ py '': '' @ py ''MAX_RETRIES_EXCEEDED'' @ py '' - '' @ str_exn e, 0), w)
           \<and> int (length (requests w)) = 3 \<and> int (sleeps w) = 2)"
proof -
  have a: "0 \<le> max_retries demo_adapter" by (simp add: demo_adapter_def)
  have r: "should_retry (classify_error (APIError (py ''429 Too Many Requests'')))"
    by (simp add: classifier_defs)
  have b: "\<forall>n req. \<exists>e. create busy_provider n req = Inl e \<and> should_retry (classify_error e)"
    using r by (simp add: busy_provider_def)
  have c: "\<forall>n req. \<exists>e. create_stream busy_provider n req = Inl e \<and> should_retry (classify_error e)"
    using r by (simp add: busy_provider_def)
  have m: "max_retries demo_adapter = 2" by (simp add: demo_adapter_def)
  from chat_retry_exhaustion [OF a b c, of demo_deps "py ''You are helpful.''"
      "[user_message (py ''Hi'')]" Map.empty]
  show ?thesis using a r unfolding m by simp
qed

subsection \<open>C8: the system message is inserted at most once\<close>

lemma chat_attempts_requests:
  "\<exists>rs. requests (snd (chat_attempts a d prov h g k att w)) = requests w @ rs
        \<and> (\<forall>r \<in> set rs. req_messages r = h) \<and> (0 < k \<longrightarrow> rs \<noteq> [])"
proof (induction k arbitrary: att w)
  case 0
  then show ?case by simp
next
  case (Suc k)
  obtain x w1 where c: "chat_inner a d prov h g w = (x, w1)"
    by (cases "chat_inner a d prov h g w")
  then have "w1 = snd (chat_inner a d prov h g w)" by simp
  then have w1: "requests w1 = requests w @
      [\<lparr>req_messages = h, req_conf = g,
        req_stream = contains (py ''qwq'') (lower (model_name a)), req_tools = False\<rparr>]"
    by (simp add: chat_inner_world)
  show ?case
  proof (cases x)
    case (Inr r)
    then show ?thesis using c w1 by simp
  next
    case (Inl e)
    show ?thesis
    proof (cases "exceptions (max_retries a) e att")
      case (Some msg)
      then show ?thesis using c w1 Inl by simp
    next
      case None
      from Suc.IH [of "Suc att" "w1\<lparr>sleeps := Suc (sleeps w1)\<rparr>"]
      obtain rs where
        "requests (snd (chat_attempts a d prov h g k (Suc att) (w1\<lparr>sleeps := Suc (sleeps w1)\<rparr>)))
           = requests w1 @ rs" "\<forall>r \<in> set rs. req_messages r = h"
        by auto
      then show ?thesis using c w1 Inl None by simp
    qed
  qed
qed

text \<open>
  C8: when the first message of the history has role \<open>system\<close>, normalization returns the
  history as it is (same length, same first element), whatever \<open>system\<close> is; when \<open>system\<close>
  and the history are non-empty and the first message is not a system message, the result
  is the history with one system message put in front; and every request \<open>chat\<close> issues
  carries the normalized history (with \<open>max_retries \<ge> 0\<close> there is at least one).
\<close>

theorem chat_system_message_once:
  "(history \<noteq> [] \<and> role (hd history) = Some (py ''system'') \<longrightarrow>
       insert_system system history = history
       \<and> length (insert_system system history) = length history
       \<and> hd (insert_system system history) = hd history)
   \<and> (system \<noteq> [] \<and> history \<noteq> [] \<and> role (hd history) \<noteq> Some (py ''system'') \<longrightarrow>
       insert_system system history = system_message system # history
       \<and> length (insert_system system history) = Suc (length history))
   \<and> (0 \<le> max_retries a \<longrightarrow>
       requests (snd (chat a d prov system history gen_conf)) \<noteq> []
       \<and> (\<forall>r \<in> set (requests (snd (chat a d prov system history gen_conf))).
             req_messages r = insert_system system history))"
proof (intro conjI impI)
  assume h: "0 \<le> max_retries a"
  then have k: "0 < nat (max_retries a + 1)" by simp
  from chat_attempts_requests [of a d prov "insert_system system history"
      "clean_conf (model_name a) gen_conf" "nat (max_retries a + 1)" 0 world0]
  obtain rs where rs: "requests (snd (chat a d prov system history gen_conf)) = rs"
    "\<forall>r \<in> set rs. req_messages r = insert_system system history" "rs \<noteq> []"
    using k by (auto simp: chat_def Let_def world0_def)
  show "requests (snd (chat a d prov system history gen_conf)) \<noteq> []" using rs by simp
  show "\<forall>r \<in> set (requests (snd (chat a d prov system history gen_conf))).
             req_messages r = insert_system system history" using rs by simp
qed (simp_all add: insert_system_def)

theorem chat_system_message_once_witness:
  "insert_system (py ''You are helpful.'') [system_message (py ''Be brief.''), user_message (py ''Hi'')]
     = [system_message (py ''Be brief.''), user_message (py ''Hi'')]
   \<and> insert_system (py ''You are helpful.'') [user_message (py ''Hi'')]
     = [system_message (py ''You are helpful.''), user_message (py ''Hi'')]
   \<and> requests (snd (chat demo_adapter demo_deps busy_provider (py ''You are helpful.'')
                      [user_message (py ''Hi'')] Map.empty)) \<noteq> []
   \<and> req_messages (hd (requests (snd (chat demo_adapter demo_deps busy_provider
                      (py ''You are helpful.'') [user_message (py ''Hi'')] Map.empty))))
        = [system_message (py ''You are helpful.''), user_message (py ''Hi'')]"
proof -
  let ?s = "py ''You are helpful.''"
  let ?h1 = "[system_message (py ''Be brief.''), user_message (py ''Hi'')]"
  let ?h2 = "[user_message (py ''Hi'')]"
  let ?rs = "requests (snd (chat demo_adapter demo_deps busy_provider ?s ?h2 Map.empty))"
  note t1 = chat_system_message_once [of ?h1 ?s demo_adapter demo_deps busy_provider Map.empty]
  note t2 = chat_system_message_once [of ?h2 ?s demo_adapter demo_deps busy_provider Map.empty]
  have a1: "?h1 \<noteq> [] \<and> role (hd ?h1) = Some (py ''system'')"
    by (simp add: system_message_def)
  have a2: "?s \<noteq> [] \<and> ?h2 \<noteq> [] \<and> role (hd ?h2) \<noteq> Some (py ''system'')"
    by (simp add: user_message_def py_def)
  have a3: "0 \<le> max_retries demo_adapter" by (simp add: demo_adapter_def)
  have r1: "insert_system ?s ?h1 = ?h1" using t1 a1 by blast
  have r2: "insert_system ?s ?h2 = system_message ?s # ?h2" using t2 a2 by blast
  have r3: "?rs \<noteq> [] \<and> (\<forall>r \<in> set ?rs. req_messages r = insert_system ?s ?h2)"
    using t2 a3 by blast
  then have "hd ?rs \<in> set ?rs" by simp
  with r3 have r4: "req_messages (hd ?rs) = insert_system ?s ?h2" by blast
  show ?thesis using r1 r2 r3 r4 by simp
qed

subsection \<open>C10: empty provider responses\<close>







subsection \<open>C6: errors in band, token count last\<close>

lemma tools_attempts_returns:
  "int attempt + int k = max_retries a + 1 \<Longrightarrow> 0 < k \<Longrightarrow>
     \<exists>r. fst (tools_attempts copy a d prov g hist k attempt st) = Inr r"
proof (induction k arbitrary: attempt st hist)
  case 0
  then show ?case by simp
next
  case (Suc k)
  obtain x st1 where c: "tools_attempt a d prov g (st\<lparr>t_history := hist\<rparr>) = (x, st1)"
    by (cases "tools_attempt a d prov g (st\<lparr>t_history := hist\<rparr>)")
  show ?case
  proof (cases x)
    case (Inr r)
    then show ?thesis using c by simp
  next
    case (Inl e)
    show ?thesis
    proof (cases "exceptions (max_retries a) e attempt")
      case (Some msg)
      then show ?thesis using c Inl by simp
    next
      case None
      then have "int attempt \<noteq> max_retries a" using exceptions_last by fastforce
      then have k: "0 < k" using Suc.prems by (cases k) auto
      have "int (Suc attempt) + int k = max_retries a + 1" using Suc.prems by simp
      from Suc.IH [OF this k] show ?thesis using c Inl None by simp
    qed
  qed
qed

lemma chat_attempts_returns:
  "int attempt + int k = max_retries a + 1 \<Longrightarrow> 0 < k \<Longrightarrow>
     \<exists>r. fst (chat_attempts a d prov h g k attempt w) = Inr r"
proof (induction k arbitrary: attempt w)
  case 0
  then show ?case by simp
next
  case (Suc k)
  obtain x w1 where c: "chat_inner a d prov h g w = (x, w1)"
    by (cases "chat_inner a d prov h g w")
  show ?case
  proof (cases x)
    case (Inr r)
    then show ?thesis using c by simp
  next
    case (Inl e)
    show ?thesis
    proof (cases "exceptions (max_retries a) e attempt")
      case (Some msg)
      then show ?thesis using c Inl by simp
    next
      case None
      then have "int attempt \<noteq> max_retries a" using exceptions_last by fastforce
      then have k: "0 < k" using Suc.prems by (cases k) auto
      have "int (Suc attempt) + int k = max_retries a + 1" using Suc.prems by simp
      from Suc.IH [OF this k] show ?thesis using c Inl None by simp
    qed
  qed
qed

lemma foldl_tokens:
  "foldl (\<lambda>total_tokens (delta_ans, tol). total_tokens + tol) (n::nat) (items :: (pystr \<times> nat) list)
     = n + sum_list (map snd items)"
  by (induction items arbitrary: n) (auto split: prod.splits)

lemma chat_attempts_result:
  "int attempt + int k = max_retries a + 1 \<Longrightarrow> 0 < k \<Longrightarrow>
     \<exists>r w' w0. chat_attempts a d prov h g k attempt w = (Inr r, w')
       \<and> (chat_inner a d prov h g w0 = (Inr r, w')
          \<or> (\<exists>e code. chat_inner a d prov h g w0 = (Inl e, w') \<and> \<not> should_retry code
                \<and> r = (format_error code e, 0)))"
proof (induction k arbitrary: attempt w)
  case 0
  then show ?case by simp
next
  case (Suc k)
  obtain x w1 where c: "chat_inner a d prov h g w = (x, w1)"
    by (cases "chat_inner a d prov h g w")
  show ?case
  proof (cases x)
    case (Inr r)
    then have "chat_attempts a d prov h g (Suc k) attempt w = (Inr r, w1)" using c by simp
    then show ?thesis using c Inr by blast
  next
    case (Inl e)
    show ?thesis
    proof (cases "exceptions (max_retries a) e attempt")
      case (Some msg)
      then have r: "chat_attempts a d prov h g (Suc k) attempt w = (Inr (msg, 0), w1)"
        using c Inl by simp
      from exceptions_Some [OF Some] obtain code where
        "msg = format_error code e" "\<not> should_retry code" by blast
      then show ?thesis using r c Inl by blast
    next
      case None
      then have "int attempt \<noteq> max_retries a" using exceptions_last by fastforce
      then have k: "0 < k" using Suc.prems by (cases k) auto
      have "int (Suc attempt) + int k = max_retries a + 1" using Suc.prems by simp
      from Suc.IH [OF this k, of "w1\<lparr>sleeps := Suc (sleeps w1)\<rparr>"]
      show ?thesis using c Inl None by simp
    qed
  qed
qed

lemma tools_attempts_result:
  "int attempt + int k = max_retries a + 1 \<Longrightarrow> 0 < k \<Longrightarrow>
     \<exists>r st' st0. tools_attempts copy a d prov g hist k attempt st = (Inr r, st')
       \<and> (tools_attempt a d prov g st0 = (Inr r, st')
          \<or> (\<exists>e code. tools_attempt a d prov g st0 = (Inl e, st') \<and> \<not> should_retry code
                \<and> r = (format_error code e, t_tk_count st')))"
proof (induction k arbitrary: attempt st hist)
  case 0
  then show ?case by simp
next
  case (Suc k)
  obtain x st1 where c: "tools_attempt a d prov g (st\<lparr>t_history := hist\<rparr>) = (x, st1)"
    by (cases "tools_attempt a d prov g (st\<lparr>t_history := hist\<rparr>)")
  show ?case
  proof (cases x)
    case (Inr r)
    then have "tools_attempts copy a d prov g hist (Suc k) attempt st = (Inr r, st1)"
      using c by simp
    then show ?thesis using c Inr by blast
  next
    case (Inl e)
    show ?thesis
    proof (cases "exceptions (max_retries a) e attempt")
      case (Some msg)
      then have r: "tools_attempts copy a d prov g hist (Suc k) attempt st
          = (Inr (msg, t_tk_count st1), st1)"
        using c Inl by simp
      from exceptions_Some [OF Some] obtain code where
        "msg = format_error code e" "\<not> should_retry code" by blast
      then show ?thesis using r c Inl by blast
    next
      case None
      then have "int attempt \<noteq> max_retries a" using exceptions_last by fastforce
      then have k: "0 < k" using Suc.prems by (cases k) auto
      have "int (Suc attempt) + int k = max_retries a + 1" using Suc.prems by simp
      from Suc.IH [OF this k] show ?thesis using c Inl None by simp
    qed
  qed
qed

text \<open>
  C6, as stated, fails for \<open>chat_streamly\<close>: it catches only \<open>openai.APIError\<close>, so another
  exception of the streamed request leaves the generator as an exception; nothing is
  yielded, no error string and no token count.
\<close>

theorem chat_streamly_counterexample:
  "fst (chat_streamly demo_adapter demo_deps broken_provider (py ''You are helpful.'')
          [user_message (py ''Hi'')] Map.empty)
     = ([], Some (OtherError (py ''Expecting value'')))"
  by (simp add: chat_streamly_def chat_streamly_inner_def broken_provider_def Let_def)

text \<open>
  C6 (amended): with \<open>max_retries \<ge> 0\<close>, \<open>chat\<close> and \<open>chat_with_tools\<close> never raise: each
  returns a pair that is either what its last attempt (\<open>_chat\<close>, or the tool rounds)
  returned, or, when that attempt raised \<open>e\<close>, the string
  \<open>**ERROR**: <CODE> - <str(e)>\<close> with a code that is not retryable, paired with 0
  (\<open>chat\<close>) or the token count so far (\<open>chat_with_tools\<close>).  At every attempt, when the
  attempt raises \<open>e\<close> and \<open>_exceptions\<close> does not retry, the call returns at once the message
  of \<open>_exceptions\<close>, which is \<open>**ERROR**: <CODE> - <str(e)>\<close> with the code
  \<open>MAX_RETRIES_EXCEEDED\<close> on the last attempt and the classified code otherwise.
  \<open>chat_streamly\<close> ends with the cumulative token count (the sum of the counts of the items
  streamed) when the stream ends normally or with an \<open>openai.APIError\<close>; in the latter case
  the item before the count is a newline and \<open>**ERROR**: <original message>\<close>, without a
  code; any other exception leaves \<open>chat_streamly\<close> as an exception.
\<close>

theorem chat_errors_in_band:
  fixes prov :: "'v provider" and d :: "'j deps" and w :: "'v world" and st :: "'v tstate"
  shows
  "(0 \<le> max_retries a \<longrightarrow>
      (\<exists>r. fst (chat a d prov system history gen_conf) = Inr r)
      \<and> (\<exists>r. fst (chat_with_tools a d prov system history gen_conf) = Inr r)
      \<and> (\<exists>r w' w0. chat a d prov system history gen_conf = (Inr r, w')
            \<and> (chat_inner a d prov (insert_system system history)
                   (clean_conf (model_name a) gen_conf) w0 = (Inr r, w')
               \<or> (\<exists>e code. chat_inner a d prov (insert_system system history)
                       (clean_conf (model_name a) gen_conf) w0 = (Inl e, w')
                     \<and> \<not> should_retry code
                     \<and> r = (ERROR_PREFIX @ py '': '' @ code_value code @ py '' - '' @ str_exn e,
                            0))))
      \<and> (\<exists>r st' st0. chat_with_tools a d prov system history gen_conf = (Inr r, t_world st')
            \<and> (tools_attempt a d prov (clean_conf (model_name a) gen_conf) st0 = (Inr r, st')
               \<or> (\<exists>e code. tools_attempt a d prov (clean_conf (model_name a) gen_conf) st0
                       = (Inl e, st')
                     \<and> \<not> should_retry code
                     \<and> r = (ERROR_PREFIX @ py '': '' @ code_value code @ py '' - '' @ str_exn e,
                            t_tk_count st')))))
   \<and> (chat_inner a d prov h g w = (Inl e1, w1)
        \<and> exceptions (max_retries a) e1 att = Some msg1
      \<longrightarrow> chat_attempts a d prov h g (Suc k) att w = (Inr (msg1, 0), w1))
   \<and> (tools_attempt a d prov g (st\<lparr>t_history := hist\<rparr>) = (Inl e1, st1)
        \<and> exceptions (max_retries a) e1 att = Some msg1
      \<longrightarrow> tools_attempts copy a d prov g hist (Suc k) att st = (Inr (msg1, t_tk_count st1), st1))
   \<and> (exceptions N e attempt = Some msg \<longrightarrow>
        (\<exists>code. \<not> should_retry code
           \<and> code = (if int attempt = N then ERROR_MAX_RETRIES else classify_error e)
           \<and> msg = ERROR_PREFIX @ py '': '' @ code_value code @ py '' - '' @ str_exn e))
   \<and> (\<forall>items err w'.
         chat_streamly_inner a d prov (insert_system system history)
             (clean_conf (model_name a) gen_conf) True world0 = ((items, err), w') \<longrightarrow>
         (err = None \<longrightarrow>
            fst (chat_streamly a d prov system history gen_conf)
              = (map (\<lambda>(delta_ans, tol). Text delta_ans) items
                   @ [TokenCount (sum_list (map snd items))], None))
         \<and> (\<forall>m. err = Some (APIError m) \<longrightarrow>
            fst (chat_streamly a d prov system history gen_conf)
              = (map (\<lambda>(delta_ans, tol). Text delta_ans) items
                   @ [Text ([10] @ py ''**ERROR**: '' @ m), TokenCount (sum_list (map snd items))],
                 None))
         \<and> (\<forall>m. err = Some (OtherError m) \<longrightarrow>
            fst (chat_streamly a d prov system history gen_conf)
              = (map (\<lambda>(delta_ans, tol). Text delta_ans) items, Some (OtherError m))))"
proof (intro conjI impI allI)
  assume h: "0 \<le> max_retries a"
  then have k: "int 0 + int (nat (max_retries a + 1)) = max_retries a + 1" "0 < nat (max_retries a + 1)"
    by simp_all
  show "\<exists>r. fst (chat a d prov system history gen_conf) = Inr r"
    using chat_attempts_returns [OF k] by (simp add: chat_def Let_def)
  have "\<exists>r. fst (tools_attempts False a d prov (clean_conf (model_name a) gen_conf)
          (insert_system system history) (nat (max_retries a + 1)) 0
          \<lparr>t_history = insert_system system history, t_ans = [], t_tk_count = 0, t_world = world0\<rparr>)
        = Inr r"
    using tools_attempts_returns [OF k] by blast
  then show "\<exists>r. fst (chat_with_tools a d prov system history gen_conf) = Inr r"
    by (auto simp: chat_with_tools_def tools_call_def Let_def split: prod.splits)
  show "\<exists>r w' w0. chat a d prov system history gen_conf = (Inr r, w')
            \<and> (chat_inner a d prov (insert_system system history)
                   (clean_conf (model_name a) gen_conf) w0 = (Inr r, w')
               \<or> (\<exists>e code. chat_inner a d prov (insert_system system history)
                       (clean_conf (model_name a) gen_conf) w0 = (Inl e, w')
                     \<and> \<not> should_retry code
                     \<and> r = (ERROR_PREFIX @ py '': '' @ code_value code @ py '' - '' @ str_exn e,
                            0)))"
    using chat_attempts_result [OF k, of d prov "insert_system system history"
        "clean_conf (model_name a) gen_conf" world0]
    unfolding chat_def Let_def format_error_def by blast
  from tools_attempts_result [OF k, of False d prov "clean_conf (model_name a) gen_conf"
      "insert_system system history"
      "\<lparr>t_history = insert_system system history, t_ans = [], t_tk_count = 0, t_world = world0\<rparr>"]
  obtain r st' st0 where t:
    "tools_attempts False a d prov (clean_conf (model_name a) gen_conf)
        (insert_system system history) (nat (max_retries a + 1)) 0
        \<lparr>t_history = insert_system system history, t_ans = [], t_tk_count = 0, t_world = world0\<rparr>
      = (Inr r, st')"
    "tools_attempt a d prov (clean_conf (model_name a) gen_conf) st0 = (Inr r, st')
       \<or> (\<exists>e code. tools_attempt a d prov (clean_conf (model_name a) gen_conf) st0 = (Inl e, st')
             \<and> \<not> should_retry code \<and> r = (format_error code e, t_tk_count st'))"
    by blast
  have "chat_with_tools a d prov system history gen_conf = (Inr r, t_world st')"
    using t(1) by (simp add: chat_with_tools_def tools_call_def Let_def)
  then show "\<exists>r st' st0. chat_with_tools a d prov system history gen_conf = (Inr r, t_world st')
            \<and> (tools_attempt a d prov (clean_conf (model_name a) gen_conf) st0 = (Inr r, st')
               \<or> (\<exists>e code. tools_attempt a d prov (clean_conf (model_name a) gen_conf) st0
                       = (Inl e, st')
                     \<and> \<not> should_retry code
                     \<and> r = (ERROR_PREFIX @ py '': '' @ code_value code @ py '' - '' @ str_exn e,
                            t_tk_count st')))"
    using t(2) unfolding format_error_def by blast
next
  assume "chat_inner a d prov h g w = (Inl e1, w1)
        \<and> exceptions (max_retries a) e1 att = Some msg1"
  then show "chat_attempts a d prov h g (Suc k) att w = (Inr (msg1, 0), w1)" by simp
next
  assume "tools_attempt a d prov g (st\<lparr>t_history := hist\<rparr>) = (Inl e1, st1)
        \<and> exceptions (max_retries a) e1 att = Some msg1"
  then show "tools_attempts copy a d prov g hist (Suc k) att st = (Inr (msg1, t_tk_count st1), st1)"
    by simp
next
  assume "exceptions N e attempt = Some msg"
  from exceptions_Some [OF this]
  show "\<exists>code. \<not> should_retry code
           \<and> code = (if int attempt = N then ERROR_MAX_RETRIES else classify_error e)
           \<and> msg = ERROR_PREFIX @ py '': '' @ code_value code @ py '' - '' @ str_exn e"
    unfolding format_error_def by blast
next
  fix items err w'
  assume c: "chat_streamly_inner a d prov (insert_system system history)
             (clean_conf (model_name a) gen_conf) True world0 = ((items, err), w')"
  show "fst (chat_streamly a d prov system history gen_conf)
              = (map (\<lambda>(delta_ans, tol). Text delta_ans) items
                   @ [TokenCount (sum_list (map snd items))], None)" if "err = None"
    using c that by (simp add: chat_streamly_def Let_def foldl_tokens)
  show "fst (chat_streamly a d prov system history gen_conf)
              = (map (\<lambda>(delta_ans, tol). Text delta_ans) items
                   @ [Text ([10] @ py ''**ERROR**: '' @ m), TokenCount (sum_list (map snd items))],
                 None)" if "err = Some (APIError m)" for m
    using c that by (simp add: chat_streamly_def Let_def foldl_tokens)
  show "fst (chat_streamly a d prov system history gen_conf)
              = (map (\<lambda>(delta_ans, tol). Text delta_ans) items, Some (OtherError m))"
    if "err = Some (OtherError m)" for m
    using c that by (simp add: chat_streamly_def Let_def foldl_tokens)
qed

text \<open>The amended C6 at concrete calls: a connection error that \<open>chat\<close> and
  \<open>chat_with_tools\<close> return in band, an authentication error on the first attempt, and a
  stream that breaks after one chunk.\<close>

theorem chat_errors_in_band_witness:
  "0 \<le> max_retries demo_adapter
   \<and> (\<exists>r. fst (chat demo_adapter demo_deps dropping_provider (py ''You are helpful.'')
               [user_message (py ''Hi'')] Map.empty) = Inr r)
   \<and> fst (chat demo_adapter demo_deps dropping_provider (py ''You are helpful.'')
            [user_message (py ''Hi'')] Map.empty)
        = Inr (py ''**ERROR**: CONNECTION_ERROR - Connection error.'', 0)
   \<and> fst (chat_with_tools demo_adapter demo_deps dropping_provider (py ''You are helpful.'')
            [user_message (py ''Hi'')] Map.empty)
        = Inr (py ''**ERROR**: CONNECTION_ERROR - Connection error.'', 0)
   \<and> exceptions 2 (APIError (py ''401 Unauthorized'')) 0
        = Some (py ''**ERROR**: AUTH_ERROR - 401 Unauthorized'')
   \<and> (\<exists>code. \<not> should_retry code
         \<and> py ''**ERROR**: AUTH_ERROR - 401 Unauthorized''
             = ERROR_PREFIX @ py '': '' @ code_value code @ py '' - ''
                 @ str_exn (APIError (py ''401 Unauthorized'')))
   \<and> fst (chat_streamly demo_adapter demo_deps dropping_provider (py ''You are helpful.'')
            [user_message (py ''Hi'')] Map.empty)
        = ([Text (py ''Hello''), Text ([10] @ py ''**ERROR**: '' @ py ''Connection error.''),
            TokenCount 7], None)"
proof -
  let ?s = "py ''You are helpful.''"
  let ?h = "[user_message (py ''Hi'')]"
  let ?H = "insert_system ?s ?h"
  let ?G = "clean_conf (model_name demo_adapter) (Map.empty :: pystr \<rightharpoonup> int)"
  let ?msg = "py ''**ERROR**: AUTH_ERROR - 401 Unauthorized''"
  let ?e = "APIError (py ''Connection error.'')"
  let ?m = "py ''**ERROR**: CONNECTION_ERROR - Connection error.''"
  let ?st0 = "\<lparr>t_history = ?H, t_ans = [], t_tk_count = 0, t_world = (world0 :: int world)\<rparr>"
  let ?w1 = "snd (chat_inner demo_adapter demo_deps dropping_provider ?H ?G world0)"
  let ?st1 = "snd (tools_attempt demo_adapter demo_deps dropping_provider ?G
                     (?st0\<lparr>t_history := ?H\<rparr>))"
  note t = chat_errors_in_band [where a = demo_adapter and d = demo_deps
      and prov = dropping_provider and system = ?s and history = ?h and gen_conf = Map.empty
      and N = 2 and e = "APIError (py ''401 Unauthorized'')" and attempt = 0 and msg = ?msg
      and h = ?H and g = ?G and w = world0 and ?e1.0 = ?e and ?w1.0 = ?w1 and att = 0
      and ?msg1.0 = ?m and k = 2 and st = ?st0 and hist = ?H and ?st1.0 = ?st1 and copy = False]
  have a: "0 \<le> max_retries demo_adapter" by (simp add: demo_adapter_def)
  have b: "exceptions 2 (APIError (py ''401 Unauthorized'')) 0 = Some ?msg"
    by (simp add: exceptions_def format_error_def ERROR_PREFIX_def classifier_defs Let_def)
  have x: "exceptions (max_retries demo_adapter) ?e 0 = Some ?m"
    by (simp add: exceptions_def format_error_def ERROR_PREFIX_def classifier_defs Let_def
        demo_adapter_def)
  have nq: "\<not> contains (py ''qwq'') (lower (model_name demo_adapter))"
    by (simp add: demo_adapter_def py_def lower_def lower_char_def)
  have "fst (chat_inner demo_adapter demo_deps dropping_provider ?H ?G world0) = Inl ?e"
    using nq by (simp add: chat_inner_def dropping_provider_def Let_def)
  then have ci: "chat_inner demo_adapter demo_deps dropping_provider ?H ?G world0 = (Inl ?e, ?w1)"
    by (cases "chat_inner demo_adapter demo_deps dropping_provider ?H ?G world0") simp
  have rounds: "nat (max_rounds demo_adapter + 1) = Suc (Suc 0)" by (simp add: demo_adapter_def)
  have "fst (tools_attempt demo_adapter demo_deps dropping_provider ?G (?st0\<lparr>t_history := ?H\<rparr>))
      = Inl ?e"
    by (simp add: tools_attempt_def rounds dropping_provider_def Let_def)
  then have ta: "tools_attempt demo_adapter demo_deps dropping_provider ?G (?st0\<lparr>t_history := ?H\<rparr>)
      = (Inl ?e, ?st1)"
    by (cases "tools_attempt demo_adapter demo_deps dropping_provider ?G (?st0\<lparr>t_history := ?H\<rparr>)")
       simp
  have tk: "t_tk_count ?st1 = 0"
    by (simp add: tools_attempt_def rounds dropping_provider_def Let_def)
  have n: "nat (max_retries demo_adapter + 1) = Suc 2" by (simp add: demo_adapter_def)
  have "chat_attempts demo_adapter demo_deps dropping_provider ?H ?G (Suc 2) 0 world0
      = (Inr (?m, 0), ?w1)"
    using t ci x by blast
  then have r0: "fst (chat demo_adapter demo_deps dropping_provider ?s ?h Map.empty) = Inr (?m, 0)"
    unfolding chat_def Let_def n by simp
  have "tools_attempts False demo_adapter demo_deps dropping_provider ?G ?H (Suc 2) 0 ?st0
      = (Inr (?m, t_tk_count ?st1), ?st1)"
    using t ta x by blast
  then have r0t: "fst (chat_with_tools demo_adapter demo_deps dropping_provider ?s ?h Map.empty)
      = Inr (?m, 0)"
    unfolding chat_with_tools_def tools_call_def Let_def n tk by simp
  have c: "chat_streamly_inner demo_adapter demo_deps dropping_provider (insert_system ?s ?h)
             (clean_conf (model_name demo_adapter) Map.empty) True world0
           = (([(py ''Hello'', 7)], Some (APIError (py ''Connection error.''))),
              snd (chat_streamly_inner demo_adapter demo_deps dropping_provider (insert_system ?s ?h)
                (clean_conf (model_name demo_adapter) Map.empty) True world0))"
    by (simp add: chat_streamly_inner_def dropping_provider_def Let_def or_empty_def truthy_def)
  have r1: "\<exists>r. fst (chat demo_adapter demo_deps dropping_provider ?s ?h Map.empty) = Inr r"
    using t a by blast
  have r2: "\<exists>code. \<not> should_retry code
         \<and> ?msg = ERROR_PREFIX @ py '': '' @ code_value code @ py '' - ''
                 @ str_exn (APIError (py ''401 Unauthorized''))"
    using t b by blast
  have r3: "fst (chat_streamly demo_adapter demo_deps dropping_provider ?s ?h Map.empty)
        = (map (\<lambda>(delta_ans, tol). Text delta_ans) [(py ''Hello'', 7::nat)]
             @ [Text ([10] @ py ''**ERROR**: '' @ py ''Connection error.''),
                TokenCount (sum_list (map snd [(py ''Hello'', 7::nat)]))], None)"
    using t [THEN conjunct2, THEN conjunct2, THEN conjunct2, THEN conjunct2, rule_format, OF c]
    by blast
  from r3 have r3': "fst (chat_streamly demo_adapter demo_deps dropping_provider ?s ?h Map.empty)
        = ([Text (py ''Hello''), Text ([10] @ py ''**ERROR**: '' @ py ''Connection error.''),
            TokenCount 7], None)" by simp
  from a r1 r0 r0t b r2 r3' show ?thesis by blast
qed

subsection \<open>C5: reassembly of streamed tool-call fragments\<close>



















subsection \<open>C1: the bound of the tool loop\<close>

lemma handle_tool_call_world:
  "t_world (handle_tool_call d st tc) = t_world st"
  by (simp add: handle_tool_call_def tool_call_failed_def Let_def split: sum.splits)

lemma foldl_handle_tool_call_world:
  "t_world (foldl (handle_tool_call d) st tcs) = t_world st"
  by (induction tcs arbitrary: st) (simp_all add: handle_tool_call_world)

lemma tool_rounds_always:
  assumes "\<forall>n req. req_tools req \<longrightarrow>
             (\<exists>r c0 cs m. create prov n req = Inr r \<and> choices r = c0 # cs
                \<and> choice_message c0 = Some m \<and> msg_tool_calls m \<noteq> [])"
  shows "\<exists>st' rs. tool_rounds a d prov g k st = Exhausted st'
           \<and> requests (t_world st') = requests (t_world st) @ rs
           \<and> map req_tools rs = replicate k True
           \<and> sleeps (t_world st') = sleeps (t_world st)"
proof (induction k arbitrary: st)
  case 0
  then show ?case by simp
next
  case (Suc k)
  let ?req = "\<lparr>req_messages = t_history st, req_conf = g, req_stream = False, req_tools = True\<rparr>"
  let ?w = "(t_world st)\<lparr>requests := requests (t_world st) @ [?req]\<rparr>"
  obtain r c0 cs m where r: "create prov (length (requests (t_world st))) ?req = Inr r"
    "choices r = c0 # cs" "choice_message c0 = Some m" "msg_tool_calls m \<noteq> []"
    using assms by (metis request.select_convs(4))
  let ?st = "foldl (handle_tool_call d)
       (st\<lparr>t_world := ?w, t_tk_count := t_tk_count st + usage r\<rparr>) (msg_tool_calls m)"
  have step: "tool_rounds a d prov g (Suc k) st = tool_rounds a d prov g k ?st"
    using r by (simp add: Let_def)
  have w: "t_world ?st = ?w" by (simp add: foldl_handle_tool_call_world)
  from Suc.IH [of ?st] obtain st' rs where
    "tool_rounds a d prov g k ?st = Exhausted st'"
    "requests (t_world st') = requests (t_world ?st) @ rs"
    "map req_tools rs = replicate k True"
    "sleeps (t_world st') = sleeps (t_world ?st)" by blast
  then have "tool_rounds a d prov g (Suc k) st = Exhausted st'
           \<and> requests (t_world st') = requests (t_world st) @ (?req # rs)
           \<and> map req_tools (?req # rs) = replicate (Suc k) True
           \<and> sleeps (t_world st') = sleeps (t_world st)"
    using step w by simp
  then show ?case by blast
qed

lemma chat_inner_plain:
  assumes "\<forall>n req. \<not> req_tools req \<longrightarrow>
             (\<exists>r. create prov n req = Inr r) \<and> (\<exists>cs. create_stream prov n req = Inr (cs, None))"
  shows "\<exists>text tok. fst (chat_inner a d prov h g w) = Inr (text, tok)"
proof (cases "contains (py ''qwq'') (lower (model_name a))")
  case True
  obtain cs where "create_stream prov (length (requests w))
      \<lparr>req_messages = h, req_conf = g, req_stream = True, req_tools = False\<rparr> = Inr (cs, None)"
    using assms by (metis request.select_convs(4))
  then show ?thesis using True
    by (simp add: chat_inner_def chat_streamly_inner_def Let_def split: prod.splits)
next
  case False
  obtain r where "create prov (length (requests w))
      \<lparr>req_messages = h, req_conf = g, req_stream = False, req_tools = False\<rparr> = Inr r"
    using assms by (metis request.select_convs(4))
  then show ?thesis using False
    by (simp add: chat_inner_def Let_def split: list.splits option.splits)
qed


text \<open>
  C1: with \<open>max_retries \<ge> 0\<close> and \<open>max_rounds = R \<ge> 0\<close>, when every request with tools
  attached is answered by a response that carries tool calls and the plain request is
  answered, \<open>chat_with_tools\<close> runs the \<open>R + 1\<close> rounds to exhaustion, appends the user
  message \<open>Exceed max rounds: R\<close>, issues one plain request with that history and returns
  the answer accumulated over the rounds followed by the text of the final response, with
  the token counts added: the requests are exactly \<open>R + 1\<close> with tools and then one
  without, and no retry takes place.
\<close>

theorem tool_loop_bound:
  fixes prov :: "'v provider" and d :: "'j deps"
  assumes "0 \<le> max_retries a" and "0 \<le> max_rounds a"
      and "\<forall>n req. req_tools req \<longrightarrow>
             (\<exists>r c0 cs m. create prov n req = Inr r \<and> choices r = c0 # cs
                \<and> choice_message c0 = Some m \<and> msg_tool_calls m \<noteq> [])"
      and "\<forall>n req. \<not> req_tools req \<longrightarrow>
             (\<exists>r. create prov n req = Inr r) \<and> (\<exists>cs. create_stream prov n req = Inr (cs, None))"
  shows "\<exists>st1 text tok w'.
           tool_rounds a d prov (clean_conf (model_name a) gen_conf) (nat (max_rounds a + 1))
               \<lparr>t_history = insert_system system history, t_ans = [], t_tk_count = 0,
                t_world = world0\<rparr> = Exhausted st1
         \<and> chat_inner a d prov (t_history st1 @ [exceed_message a])
               (clean_conf (model_name a) gen_conf) (t_world st1) = (Inr (text, tok), w')
         \<and> chat_with_tools a d prov system history gen_conf
               = (Inr (t_ans st1 @ text, t_tk_count st1 + tok), w')
         \<and> map req_tools (requests w') = replicate (nat (max_rounds a + 1)) True @ [False]
         \<and> req_messages (last (requests w')) = t_history st1 @ [exceed_message a]
         \<and> last (req_messages (last (requests w')))
               = user_message (py ''Exceed max rounds: '' @ str_int (max_rounds a))
         \<and> sleeps w' = 0"
proof -
  let ?g = "clean_conf (model_name a) gen_conf"
  let ?h = "insert_system system history"
  let ?st0 = "\<lparr>t_history = ?h, t_ans = [], t_tk_count = 0, t_world = (world0 :: 'v world)\<rparr>"
  let ?k = "nat (max_rounds a + 1)"
  from tool_rounds_always [OF assms(3), of a d ?g ?k ?st0]
  obtain st1 rs where r: "tool_rounds a d prov ?g ?k ?st0 = Exhausted st1"
    "requests (t_world st1) = rs" "map req_tools rs = replicate ?k True"
    "sleeps (t_world st1) = 0"
    by (auto simp: world0_def)
  let ?h1 = "t_history st1 @ [exceed_message a]"
  obtain ftext tok where f: "fst (chat_inner a d prov ?h1 ?g (t_world st1)) = Inr (ftext, tok)"
    using chat_inner_plain [OF assms(4)] by blast
  obtain w' where c: "chat_inner a d prov ?h1 ?g (t_world st1) = (Inr (ftext, tok), w')"
    using f by (cases "chat_inner a d prov ?h1 ?g (t_world st1)") simp
  then have "w' = snd (chat_inner a d prov ?h1 ?g (t_world st1))" by simp
  then have w': "requests w' = rs @
      [\<lparr>req_messages = ?h1, req_conf = ?g,
        req_stream = contains (py ''qwq'') (lower (model_name a)), req_tools = False\<rparr>]"
    "sleeps w' = 0"
    using r by (simp_all add: chat_inner_world)
  have att: "tools_attempt a d prov ?g ?st0
      = (Inr (t_ans st1 @ ftext, t_tk_count st1 + tok),
         st1\<lparr>t_history := ?h1, t_ans := t_ans st1 @ ftext,
             t_tk_count := t_tk_count st1 + tok, t_world := w'\<rparr>)"
    using r(1) c by (simp add: tools_attempt_def Let_def)
  obtain j where j: "nat (max_retries a + 1) = Suc j"
    using assms(1) by (cases "nat (max_retries a + 1)") auto
  have st0: "?st0\<lparr>t_history := ?h\<rparr> = ?st0" by simp
  have "chat_with_tools a d prov system history gen_conf
      = (Inr (t_ans st1 @ ftext, t_tk_count st1 + tok), w')"
    unfolding chat_with_tools_def tools_call_def Let_def j tools_attempts.simps st0 att by simp
  then show ?thesis using r c w' by (auto simp: exceed_message_def)
qed

text \<open>C1 at \<open>max_rounds = 1\<close>: two requests with tools, then one without.\<close>

theorem tool_loop_bound_witness:
  "0 \<le> max_retries demo_adapter \<and> 0 \<le> max_rounds demo_adapter
   \<and> (\<exists>r. fst (chat_with_tools demo_adapter demo_deps tool_provider (py ''You are helpful.'')
               [user_message (py ''Hi'')] Map.empty) = Inr r)
   \<and> map req_tools (requests (snd (chat_with_tools demo_adapter demo_deps tool_provider
          (py ''You are helpful.'') [user_message (py ''Hi'')] Map.empty))) = [True, True, False]
   \<and> last (req_messages (last (requests (snd (chat_with_tools demo_adapter demo_deps tool_provider
          (py ''You are helpful.'') [user_message (py ''Hi'')] Map.empty)))))
       = user_message (py ''Exceed max rounds: 1'')"
proof -
  have a: "0 \<le> max_retries demo_adapter" by (simp add: demo_adapter_def)
  have b: "0 \<le> max_rounds demo_adapter" by (simp add: demo_adapter_def)
  have c: "\<forall>n req. req_tools req \<longrightarrow>
             (\<exists>r c0 cs m. create tool_provider n req = Inr r \<and> choices r = c0 # cs
                \<and> choice_message c0 = Some m \<and> msg_tool_calls m \<noteq> [])"
    by (simp add: tool_provider_def tool_call_response_def)
  have e: "\<forall>n req. \<not> req_tools req \<longrightarrow>
             (\<exists>r. create tool_provider n req = Inr r)
             \<and> (\<exists>cs. create_stream tool_provider n req = Inr (cs, None))"
    by (simp add: tool_provider_def)
  have k: "nat (max_rounds demo_adapter + 1) = 2" by (simp add: demo_adapter_def)
  have s: "str_int (max_rounds demo_adapter) = py ''1''"
    by (simp add: demo_adapter_def str_int_def str_nat.simps py_def)
  from tool_loop_bound [OF a b c e, of demo_deps Map.empty "py ''You are helpful.''"
      "[user_message (py ''Hi'')]"]
  obtain y w' where
    "chat_with_tools demo_adapter demo_deps tool_provider (py ''You are helpful.'')
        [user_message (py ''Hi'')] Map.empty = (Inr y, w')"
    "map req_tools (requests w') = replicate (nat (max_rounds demo_adapter + 1)) True @ [False]"
    "last (req_messages (last (requests w')))
       = user_message (py ''Exceed max rounds: '' @ str_int (max_rounds demo_adapter))"
    by blast
  then show ?thesis using a b unfolding k s
    by (simp add: numeral_2_eq_2 py_def)
qed

subsection \<open>C4: the history a retried attempt starts from\<close>

lemma retry_429:
  "exceptions (max_retries demo_adapter) (APIError (py ''429 Too Many Requests'')) 0 = None"
  by (simp add: exceptions_def Let_def classifier_defs demo_adapter_def)

lemma demo_history:
  "insert_system (py ''You are helpful.'') [user_message (py ''Hi'')]
     = [system_message (py ''You are helpful.''), user_message (py ''Hi'')]"
  by (simp add: insert_system_def user_message_def py_def)

lemma demo_tool_step:
  "handle_tool_call demo_deps st
     \<lparr>tc_index = 0, tc_id = py ''call_1'', tc_name = py ''get_weather'',
      tc_arguments = Some (py ''{}'')\<rparr>
   = st\<lparr>t_history := t_history st @
          [assistant_call_message \<lparr>tc_index = 0, tc_id = py ''call_1'',
             tc_name = py ''get_weather'', tc_arguments = Some (py ''{}'')\<rparr>,
           tool_message (py ''call_1'') (py ''42'')],
        t_ans := t_ans st @ py ''<tool_call>'' @ py ''get_weather'' @ py ''('' @ py ''{}'' @ py '')=''
                   @ py ''42'' @ py ''</tool_call>''\<rparr>"
  by (simp add: handle_tool_call_def demo_deps_def append_history_def verbose_tool_use_def
      or_empty_def Let_def)


lemma demo_counts:
  "nat (max_retries demo_adapter + 1) = Suc (Suc (Suc 0))"
  "nat (max_rounds demo_adapter + 1) = Suc (Suc 0)"
  by (simp_all add: demo_adapter_def)

lemma stop_not_length: "py ''stop'' \<noteq> py ''length''"
  by (simp add: py_def)

lemmas retry_eval = tools_call_def tools_attempt_def demo_counts retry_429 demo_tool_step
  flaky_provider_def tool_call_response_def text_response_def demo_history
  world0_def truthy_def stop_not_length Let_def

text \<open>
  C4 fails on the code.  The first request of the call asks for a tool call, the second
  fails with a rate-limit error and the call is retried.  In \<open>chat_with_tools\<close> the retried
  attempt starts with \<open>history = hist\<close>, the list the failed attempt appended to, so its
  first request (the third of the call) carries the assistant and tool entries of the
  failed attempt.  In \<open>async_chat_with_tools\<close>, which starts an attempt with
  \<open>history = deepcopy(hist)\<close>, it carries the original history.
\<close>

theorem chat_with_tools_retry_history:
  "map req_messages (requests (snd (chat_with_tools demo_adapter demo_deps flaky_provider
       (py ''You are helpful.'') [user_message (py ''Hi'')] Map.empty)))
     = [ [system_message (py ''You are helpful.''), user_message (py ''Hi'')],
         [system_message (py ''You are helpful.''), user_message (py ''Hi''),
          assistant_call_message \<lparr>tc_index = 0, tc_id = py ''call_1'',
             tc_name = py ''get_weather'', tc_arguments = Some (py ''{}'')\<rparr>,
          tool_message (py ''call_1'') (py ''42'')],
         [system_message (py ''You are helpful.''), user_message (py ''Hi''),
          assistant_call_message \<lparr>tc_index = 0, tc_id = py ''call_1'',
             tc_name = py ''get_weather'', tc_arguments = Some (py ''{}'')\<rparr>,
          tool_message (py ''call_1'') (py ''42'')] ]
   \<and> map req_messages (requests (snd (async_chat_with_tools demo_adapter demo_deps flaky_provider
       (py ''You are helpful.'') [user_message (py ''Hi'')] Map.empty)))
     = [ [system_message (py ''You are helpful.''), user_message (py ''Hi'')],
         [system_message (py ''You are helpful.''), user_message (py ''Hi''),
          assistant_call_message \<lparr>tc_index = 0, tc_id = py ''call_1'',
             tc_name = py ''get_weather'', tc_arguments = Some (py ''{}'')\<rparr>,
          tool_message (py ''call_1'') (py ''42'')],
         [system_message (py ''You are helpful.''), user_message (py ''Hi'')] ]"
proof -
  have s: "map req_messages (requests (snd (chat_with_tools demo_adapter demo_deps flaky_provider
       (py ''You are helpful.'') [user_message (py ''Hi'')] Map.empty)))
     = [ [system_message (py ''You are helpful.''), user_message (py ''Hi'')],
         [system_message (py ''You are helpful.''), user_message (py ''Hi''),
          assistant_call_message \<lparr>tc_index = 0, tc_id = py ''call_1'',
             tc_name = py ''get_weather'', tc_arguments = Some (py ''{}'')\<rparr>,
          tool_message (py ''call_1'') (py ''42'')],
         [system_message (py ''You are helpful.''), user_message (py ''Hi''),
          assistant_call_message \<lparr>tc_index = 0, tc_id = py ''call_1'',
             tc_name = py ''get_weather'', tc_arguments = Some (py ''{}'')\<rparr>,
          tool_message (py ''call_1'') (py ''42'')] ]"
    by (simp add: chat_with_tools_def retry_eval)
  have a: "map req_messages (requests (snd (async_chat_with_tools demo_adapter demo_deps flaky_provider
       (py ''You are helpful.'') [user_message (py ''Hi'')] Map.empty)))
     = [ [system_message (py ''You are helpful.''), user_message (py ''Hi'')],
         [system_message (py ''You are helpful.''), user_message (py ''Hi''),
          assistant_call_message \<lparr>tc_index = 0, tc_id = py ''call_1'',
             tc_name = py ''get_weather'', tc_arguments = Some (py ''{}'')\<rparr>,
          tool_message (py ''call_1'') (py ''42'')],
         [system_message (py ''You are helpful.''), user_message (py ''Hi'')] ]"
    by (simp add: async_chat_with_tools_def retry_eval)
  from s a show ?thesis by (rule conjI)
qed

end
